theory Spec2Isabelle
  imports Main
begin

section \<open>Rate limiter (server/routes.ts, checkRateLimit)\<close>

text \<open>
  The module keeps \<^verbatim>\<open>rateLimitMap: Map<string, {count, resetTime}>\<close>. The map is
  only read and written by key, so it is a partial function from client keys to entries.
  \<^verbatim>\<open>Date.now()\<close> is an input of the model (milliseconds, an integer); the counter and
  the limit are integers as well.
\<close>

record rl_entry =
  count :: int
  resetTime :: int

text \<open>
  \<^verbatim>\<open>
  function checkRateLimit(ip, limit = globalRateLimit): boolean {
    const now = Date.now();
    const userLimit = rateLimitMap.get(ip);
    if (!userLimit || now > userLimit.resetTime) {
      rateLimitMap.set(ip, { count: 1, resetTime: now + 60000 });
      return true;
    }
    if (userLimit.count >= limit) { return false; }
    userLimit.count++;
    return true;
  }
  \<close>
  The result pairs the returned boolean with the map after the call. The increment
  mutates the object stored in the map, so the model updates the map at \<open>ip\<close>.
\<close>

definition checkRateLimit ::
  "int \<Rightarrow> (string \<rightharpoonup> rl_entry) \<Rightarrow> string \<Rightarrow> int \<Rightarrow> bool \<times> (string \<rightharpoonup> rl_entry)" where
  "checkRateLimit now rateLimitMap ip limit =
     (case rateLimitMap ip of
        None \<Rightarrow> (True, rateLimitMap(ip \<mapsto> \<lparr>count = 1, resetTime = now + 60000\<rparr>))
      | Some userLimit \<Rightarrow>
          if now > resetTime userLimit
          then (True, rateLimitMap(ip \<mapsto> \<lparr>count = 1, resetTime = now + 60000\<rparr>))
          else if count userLimit \<ge> limit then (False, rateLimitMap)
          else (True, rateLimitMap(ip \<mapsto> userLimit\<lparr>count := count userLimit + 1\<rparr>)))"

text \<open>
  A run of consecutive calls for one client, at the given clock readings: the returned
  booleans in order, and the map after the last call.
\<close>

fun checkRateLimit_calls ::
  "(string \<rightharpoonup> rl_entry) \<Rightarrow> string \<Rightarrow> int \<Rightarrow> int list \<Rightarrow> bool list \<times> (string \<rightharpoonup> rl_entry)" where
  "checkRateLimit_calls m ip limit [] = ([], m)"
| "checkRateLimit_calls m ip limit (now # nows) =
     (let (allowed, m') = checkRateLimit now m ip limit;
          (rest, m'') = checkRateLimit_calls m' ip limit nows
      in (allowed # rest, m''))"

section \<open>JavaScript values\<close>

text \<open>
  The request body (\<^verbatim>\<open>req.body\<close>) and the vendor's reply
  (\<^verbatim>\<open>await apiResponse.json()\<close>) are parsed JSON, typed \<^verbatim>\<open>any\<close>. A number is
  carried as the text \<^verbatim>\<open>Number.prototype.toString\<close> gives for it (zero of either sign
  is \<open>''0''\<close>): the handler only tests numbers for truthiness and interpolates them into
  strings. An object lists each key once, as \<^verbatim>\<open>JSON.parse\<close> leaves it.
\<close>

datatype jsval =
    JUndefined
  | JNull
  | JBool bool
  | JNum string
  | JStr string
  | JArr "jsval list"
  | JObj "(string \<times> jsval) list"

text \<open>A thrown \<^verbatim>\<open>Error\<close>; the catch block reads only its \<^verbatim>\<open>message\<close>.\<close>

datatype js_error = JsError (message: string)

definition nullish :: "jsval \<Rightarrow> bool" where
  "nullish v = (v = JUndefined \<or> v = JNull)"

text \<open>What \<^verbatim>\<open>!v\<close>, \<^verbatim>\<open>v || d\<close> and \<^verbatim>\<open>if (v)\<close> test.\<close>

fun truthy :: "jsval \<Rightarrow> bool" where
  "truthy JUndefined = False"
| "truthy JNull = False"
| "truthy (JBool b) = b"
| "truthy (JNum n) = (n \<noteq> ''0'' \<and> n \<noteq> ''NaN'')"
| "truthy (JStr s) = (s \<noteq> [])"
| "truthy (JArr xs) = True"
| "truthy (JObj kvs) = True"

definition js_or :: "jsval \<Rightarrow> jsval \<Rightarrow> jsval" where
  "js_or a b = (if truthy a then a else b)"

text \<open>
  Reading property \<open>k\<close> of a value that is neither null nor undefined. The handler reads
  only the names \<^verbatim>\<open>chatId messages model role content endpoint apiKey provider candidates
  parts text choices message\<close> and the index \<^verbatim>\<open>0\<close>; none of them is inherited from a
  prototype, so a name that is not an own property reads as undefined. A string has its
  first character at index 0.
\<close>

fun own_prop :: "jsval \<Rightarrow> string \<Rightarrow> jsval" where
  "own_prop (JObj kvs) k = (case map_of kvs k of None \<Rightarrow> JUndefined | Some v \<Rightarrow> v)"
| "own_prop (JArr xs) k =
     (if k = ''0'' then (case xs of [] \<Rightarrow> JUndefined | x # _ \<Rightarrow> x) else JUndefined)"
| "own_prop (JStr s) k =
     (if k = ''0'' then (case s of [] \<Rightarrow> JUndefined | c # _ \<Rightarrow> JStr [c]) else JUndefined)"
| "own_prop v k = JUndefined"

text \<open>\<^verbatim>\<open>v.k\<close>: a TypeError on null and undefined (the message is V8's).\<close>

definition getProp :: "jsval \<Rightarrow> string \<Rightarrow> js_error + jsval" where
  "getProp v k =
     (if v = JUndefined
      then Inl (JsError (''Cannot read properties of undefined (reading '' @ [CHR 0x27] @ k
                         @ [CHR 0x27] @ '')''))
      else if v = JNull
      then Inl (JsError (''Cannot read properties of null (reading '' @ [CHR 0x27] @ k
                         @ [CHR 0x27] @ '')''))
      else Inr (own_prop v k))"

text \<open>\<^verbatim>\<open>v?.k\<close>: undefined on null and undefined.\<close>

definition optProp :: "jsval \<Rightarrow> string \<Rightarrow> jsval" where
  "optProp v k = (if nullish v then JUndefined else own_prop v k)"

text \<open>
  String conversion, as a template literal does it. An array joins its elements with
  commas, null and undefined elements as the empty string. A plain object prints as
  \<^verbatim>\<open>[object Object]\<close>, unless it has an own key \<^verbatim>\<open>toString\<close>: a JSON value is never
  callable, and the conversion throws.
\<close>

fun js_toString :: "jsval \<Rightarrow> js_error + string"
and join_elements :: "jsval list \<Rightarrow> js_error + string" where
  "js_toString JUndefined = Inr ''undefined''"
| "js_toString JNull = Inr ''null''"
| "js_toString (JBool b) = Inr (if b then ''true'' else ''false'')"
| "js_toString (JNum n) = Inr n"
| "js_toString (JStr s) = Inr s"
| "js_toString (JArr xs) = join_elements xs"
| "js_toString (JObj kvs) =
     (if ''toString'' \<in> set (map fst kvs)
      then Inl (JsError ''Cannot convert object to primitive value'')
      else Inr ''[object Object]'')"
| "join_elements [] = Inr []"
| "join_elements (x # xs) =
     (case (if x = JUndefined \<or> x = JNull then Inr [] else js_toString x) of
        Inl e \<Rightarrow> Inl e
      | Inr s \<Rightarrow>
          (case join_elements xs of
             Inl e \<Rightarrow> Inl e
           | Inr r \<Rightarrow> Inr (if xs = [] then s else s @ '','' @ r)))"

text \<open>\<^verbatim>\<open>s.includes(t)\<close>: \<open>t\<close> occurs in \<open>s\<close> as a contiguous run.\<close>

fun starts_with :: "string \<Rightarrow> string \<Rightarrow> bool" where
  "starts_with s [] = True"
| "starts_with [] (c # t) = False"
| "starts_with (d # s) (c # t) = (d = c \<and> starts_with s t)"

fun js_includes :: "string \<Rightarrow> string \<Rightarrow> bool" where
  "js_includes [] t = (t = [])"
| "js_includes (d # s) t = (starts_with (d # s) t \<or> js_includes s t)"

section \<open>The chat request schema (shared/schema.ts)\<close>

text \<open>
  \<^verbatim>\<open>
  export const chatRequestSchema = z.object({
    chatId: z.string(),
    messages: z.array(z.object({
      role: z.enum(["user", "assistant"]),
      content: z.string(),
    })),
    model: z.string().optional(),
  });
  \<close>
  \<^verbatim>\<open>safeParse\<close> either returns the data, with unknown keys stripped, or the list of
  issues. Zod visits every key and every array element and collects an issue for each
  that fails; an issue is modelled by the path of the offending value.
\<close>

datatype role = User | Assistant

datatype chat_message = ChatMessage (msg_role: role) (msg_content: string)

datatype path_elem = Key string | Index nat

type_synonym zod_issue = "path_elem list"

record chat_request =
  data_chatId :: string
  data_messages :: "chat_message list"
  data_model :: "string option"

definition parse_role :: "jsval \<Rightarrow> role option" where
  "parse_role v =
     (if v = JStr ''user'' then Some User
      else if v = JStr ''assistant'' then Some Assistant
      else None)"

definition parse_string :: "jsval \<Rightarrow> string option" where
  "parse_string v = (case v of JStr s \<Rightarrow> Some s | _ \<Rightarrow> None)"

definition parse_message :: "nat \<Rightarrow> jsval \<Rightarrow> zod_issue list + chat_message" where
  "parse_message i v =
     (case v of
        JObj kvs \<Rightarrow>
          (case (parse_role (own_prop v ''role''), parse_string (own_prop v ''content'')) of
             (Some r, Some c) \<Rightarrow> Inr (ChatMessage r c)
           | (r, c) \<Rightarrow>
               Inl ((if r = None then [[Key ''messages'', Index i, Key ''role'']] else [])
                  @ (if c = None then [[Key ''messages'', Index i, Key ''content'']] else [])))
      | _ \<Rightarrow> Inl [[Key ''messages'', Index i]])"

fun parse_messages :: "nat \<Rightarrow> jsval list \<Rightarrow> zod_issue list + chat_message list" where
  "parse_messages i [] = Inr []"
| "parse_messages i (v # vs) =
     (case (parse_message i v, parse_messages (Suc i) vs) of
        (Inr m, Inr ms) \<Rightarrow> Inr (m # ms)
      | (Inl e, Inr ms) \<Rightarrow> Inl e
      | (Inr m, Inl e') \<Rightarrow> Inl e'
      | (Inl e, Inl e') \<Rightarrow> Inl (e @ e'))"

definition parse_messages_field :: "jsval \<Rightarrow> zod_issue list + chat_message list" where
  "parse_messages_field v =
     (case v of JArr vs \<Rightarrow> parse_messages 0 vs | _ \<Rightarrow> Inl [[Key ''messages'']])"

definition parse_model_field :: "jsval \<Rightarrow> zod_issue list + string option" where
  "parse_model_field v =
     (case v of
        JUndefined \<Rightarrow> Inr None
      | JStr s \<Rightarrow> Inr (Some s)
      | _ \<Rightarrow> Inl [[Key ''model'']])"

definition issues_of :: "zod_issue list + 'a \<Rightarrow> zod_issue list" where
  "issues_of r = (case r of Inl e \<Rightarrow> e | Inr _ \<Rightarrow> [])"

definition safeParse :: "jsval \<Rightarrow> zod_issue list + chat_request" where
  "safeParse b =
     (case b of
        JObj kvs \<Rightarrow>
          (let c = parse_string (own_prop b ''chatId'');
               ms = parse_messages_field (own_prop b ''messages'');
               md = parse_model_field (own_prop b ''model'')
           in case (c, ms, md) of
                (Some cid, Inr msgs, Inr mdl) \<Rightarrow>
                  Inr \<lparr>data_chatId = cid, data_messages = msgs, data_model = mdl\<rparr>
              | _ \<Rightarrow>
                  Inl ((if c = None then [[Key ''chatId'']] else []) @ issues_of ms @ issues_of md))
      | _ \<Rightarrow> Inl [[]])"

section \<open>In-memory storage (server/storage.ts, MemStorage)\<close>

text \<open>
  A JavaScript \<^verbatim>\<open>Map\<close> iterates in insertion order, and the order shows in what
  \<^verbatim>\<open>getMessagesByChatId\<close> returns, so the two maps are association lists in insertion
  order. \<^verbatim>\<open>set\<close> on a key already present replaces the value in place; \<^verbatim>\<open>delete\<close>
  removes the key.
\<close>

definition jsmap_get :: "('k \<times> 'v) list \<Rightarrow> 'k \<Rightarrow> 'v option" where
  "jsmap_get kvs k = map_of kvs k"

fun jsmap_set :: "('k \<times> 'v) list \<Rightarrow> 'k \<Rightarrow> 'v \<Rightarrow> ('k \<times> 'v) list" where
  "jsmap_set [] k v = [(k, v)]"
| "jsmap_set ((k', v') # kvs) k v =
     (if k' = k then (k, v) # kvs else (k', v') # jsmap_set kvs k v)"

definition jsmap_delete :: "('k \<times> 'v) list \<Rightarrow> 'k \<Rightarrow> ('k \<times> 'v) list" where
  "jsmap_delete kvs k = filter (\<lambda>(k', v). k' \<noteq> k) kvs"

text \<open>
  \<^verbatim>\<open>InsertMessage\<close> is what \<^verbatim>\<open>createMessage\<close> receives; \<^verbatim>\<open>Message\<close> adds the id and
  the timestamp (milliseconds). The content is declared a string, but the handler stores
  whatever truthy value it extracted from the vendor's reply, so it is a JSON value here.
  \<^verbatim>\<open>model\<close> is \<open>None\<close> for null.
\<close>

record InsertMessage =
  chatId :: string
  role :: role
  content :: jsval
  model :: "string option"

record Message = InsertMessage +
  id' :: string
  timestamp :: int

record Chat =
  chat_id :: string
  name :: string
  createdAt :: int
  userId :: "string option"

record MemStorage =
  chats :: "(string \<times> Chat) list"
  messages :: "(string \<times> Message) list"

definition getChat :: "MemStorage \<Rightarrow> string \<Rightarrow> Chat option" where
  "getChat st i = jsmap_get (chats st) i"

text \<open>
  \<^verbatim>\<open>
  async createMessage(insertMessage) {
    const id = randomUUID();
    const message = { ...insertMessage, id, timestamp: new Date(),
                      model: insertMessage.model || null };
    this.messages.set(id, message);
    return message;
  }
  \<close>
  \<^verbatim>\<open>randomUUID()\<close> and \<^verbatim>\<open>new Date()\<close> are inputs. \<^verbatim>\<open>model || null\<close> turns the empty
  string into null.
\<close>

definition createMessage ::
  "MemStorage \<Rightarrow> string \<Rightarrow> int \<Rightarrow> InsertMessage \<Rightarrow> Message \<times> MemStorage" where
  "createMessage st uuid date insertMessage =
     (let message = \<lparr>chatId = chatId insertMessage, role = role insertMessage,
                     content = content insertMessage,
                     model = (case model insertMessage of
                                None \<Rightarrow> None
                              | Some s \<Rightarrow> if s = [] then None else Some s),
                     id' = uuid, timestamp = date\<rparr>
      in (message, st\<lparr>messages := jsmap_set (messages st) uuid message\<rparr>))"

text \<open>
  \<^verbatim>\<open>
  async deleteChat(id) {
    this.chats.delete(id);
    const messagesToDelete = Array.from(this.messages.entries())
      .filter(([_, message]) => message.chatId === id)
      .map(([messageId]) => messageId);
    messagesToDelete.forEach(messageId => this.messages.delete(messageId));
  }
  \<close>
\<close>

definition deleteChat :: "MemStorage \<Rightarrow> string \<Rightarrow> MemStorage" where
  "deleteChat st i =
     (let messagesToDelete = map fst (filter (\<lambda>(k, message). chatId message = i) (messages st))
      in st\<lparr>chats := jsmap_delete (chats st) i,
             messages := fold (\<lambda>messageId ms. jsmap_delete ms messageId) messagesToDelete
                           (messages st)\<rparr>)"

text \<open>
  \<^verbatim>\<open>
  async getMessagesByChatId(chatId) {
    return Array.from(this.messages.values())
      .filter(message => message.chatId === chatId)
      .sort((a, b) => new Date(a.timestamp).getTime() - new Date(b.timestamp).getTime());
  }
  \<close>
  \<^verbatim>\<open>Array.prototype.sort\<close> is stable, as \<open>sort_key\<close> is.
\<close>

definition getMessagesByChatId :: "MemStorage \<Rightarrow> string \<Rightarrow> Message list" where
  "getMessagesByChatId st c =
     sort_key timestamp (filter (\<lambda>message. chatId message = c) (map snd (messages st)))"

section \<open>The chat endpoint (server/routes.ts, POST /api/chat)\<close>

text \<open>
  The process state the handler reads and writes: the limiter's map, the global limit
  and the storage singleton.
\<close>

record server_state =
  rateLimitMap :: "string \<rightharpoonup> rl_entry"
  globalRateLimit :: int
  storage :: MemStorage

text \<open>
  The request: \<^verbatim>\<open>req.ip\<close>, \<^verbatim>\<open>req.socket.remoteAddress\<close> (either may be undefined) and
  the parsed body.
\<close>

record express_req =
  ip :: "string option"
  remoteAddress :: "string option"
  body :: jsval

text \<open>
  The outbound call. The body is kept as the object handed to \<^verbatim>\<open>JSON.stringify\<close>:
  either the chat-completions object with its model, its messages and the optional
  \<^verbatim>\<open>max_completion_tokens\<close> and \<^verbatim>\<open>max_tokens\<close>, or Gemini's object with the one text
  under \<^verbatim>\<open>contents[0].parts[0].text\<close>. Headers are in the order they were set.
\<close>

datatype request_body =
    ChatCompletions string "chat_message list" "nat option" "nat option"
  | GenerateContent string

record outbound_request =
  apiUrl :: string
  headers :: "(string \<times> string) list"
  requestBody :: request_body

text \<open>
  The vendor's reply: the status, and what \<^verbatim>\<open>text()\<close> and \<^verbatim>\<open>json()\<close> give (each may
  reject). \<^verbatim>\<open>ok\<close> holds for a status from 200 to 299.
\<close>

record api_response =
  status :: nat
  body_text :: "js_error + string"
  body_json :: "js_error + jsval"

definition ok :: "api_response \<Rightarrow> bool" where
  "ok r = (200 \<le> status r \<and> status r \<le> 299)"

text \<open>
  Everything the handler takes from outside: the clock read by the limiter, the uuid and
  date of each \<^verbatim>\<open>createMessage\<close> call, \<^verbatim>\<open>fetch\<close> (which may reject) and the
  \<^verbatim>\<open>GITHUB_TOKEN\<close> read at start-up.
\<close>

record environment =
  dateNow :: int
  userMessageUuid :: string
  userMessageDate :: int
  assistantMessageUuid :: string
  assistantMessageDate :: int
  fetch :: "outbound_request \<Rightarrow> js_error + api_response"
  GITHUB_TOKEN :: string

text \<open>The reply: the status and the JSON object sent.\<close>

datatype details = Issues "zod_issue list" | Text string

datatype res_json =
    ErrorJson string "details option"
  | ChatJson jsval string string

record express_res =
  statusCode :: nat
  json :: res_json

definition DEFAULT_ENDPOINTS_github :: string where
  "DEFAULT_ENDPOINTS_github = ''https://models.inference.ai.azure.com''"

text \<open>\<^verbatim>\<open>req.ip || req.socket.remoteAddress || "unknown"\<close>\<close>

definition clientIp :: "express_req \<Rightarrow> string" where
  "clientIp req =
     (case ip req of
        Some a \<Rightarrow> if a \<noteq> [] then a
                  else (case remoteAddress req of
                          Some b \<Rightarrow> if b \<noteq> [] then b else ''unknown''
                        | None \<Rightarrow> ''unknown'')
      | None \<Rightarrow> (case remoteAddress req of
                   Some b \<Rightarrow> if b \<noteq> [] then b else ''unknown''
                 | None \<Rightarrow> ''unknown''))"

text \<open>
  \<^verbatim>\<open>
  const userMessage = messages[messages.length - 1];
  if (userMessage.role === "user") {
    await storage.createMessage({ chatId, role: "user",
                                  content: userMessage.content, model: null });
  }
  \<close>
  On an empty list \<^verbatim>\<open>userMessage\<close> is undefined and reading \<^verbatim>\<open>role\<close> throws.
\<close>

definition storeUserMessage ::
  "environment \<Rightarrow> MemStorage \<Rightarrow> string \<Rightarrow> chat_message list \<Rightarrow> js_error + MemStorage" where
  "storeUserMessage env st c msgs =
     (if msgs = [] then Inl (JsError ''Cannot read properties of undefined (reading 'role')'')
      else let userMessage = last msgs
           in if msg_role userMessage = User
              then Inr (snd (createMessage st (userMessageUuid env) (userMessageDate env)
                     \<lparr>chatId = c, role = User, content = JStr (msg_content userMessage),
                      model = None\<rparr>))
              else Inr st)"

text \<open>
  Lines 203 to 241: the URL, the headers and the body for the provider. The endpoint is
  interpolated first; each branch then interpolates the key (the anthropic branch stores
  the key as a header value, which \<^verbatim>\<open>fetch\<close> converts to a string the same way). The
  Gemini branch reads the last message after building its URL.
\<close>

definition buildRequest ::
  "jsval \<Rightarrow> jsval \<Rightarrow> jsval \<Rightarrow> string \<Rightarrow> chat_message list \<Rightarrow> js_error + outbound_request" where
  "buildRequest provider providerEndpoint providerApiKey mdl msgs =
     (case js_toString providerEndpoint of
        Inl e \<Rightarrow> Inl e
      | Inr endpoint \<Rightarrow>
     (case js_toString providerApiKey of
        Inl e \<Rightarrow> Inl e
      | Inr apiKey \<Rightarrow>
          (let url = endpoint @ ''/chat/completions'';
               hdrs = [(''Content-Type'', ''application/json'')]
           in if provider = JStr ''github'' \<or> provider = JStr ''openai''
              then Inr \<lparr>apiUrl = url,
                        headers = hdrs @ [(''Authorization'', ''Bearer '' @ apiKey)],
                        requestBody = ChatCompletions mdl msgs (Some 4000) None\<rparr>
              else if provider = JStr ''anthropic''
              then Inr \<lparr>apiUrl = url,
                        headers = hdrs @ [(''x-api-key'', apiKey),
                                          (''anthropic-version'', ''2023-06-01'')],
                        requestBody = ChatCompletions mdl msgs None (Some 4000)\<rparr>
              else if provider = JStr ''cohere'' \<or> provider = JStr ''mistral''
              then Inr \<lparr>apiUrl = url,
                        headers = hdrs @ [(''Authorization'', ''Bearer '' @ apiKey)],
                        requestBody = ChatCompletions mdl msgs None (Some 4000)\<rparr>
              else if provider = JStr ''gemini''
              then (if msgs = []
                    then Inl (JsError ''Cannot read properties of undefined (reading 'content')'')
                    else Inr \<lparr>apiUrl = endpoint @ ''/models/'' @ mdl @ '':generateContent?key=''
                                       @ apiKey,
                              headers = hdrs,
                              requestBody = GenerateContent (msg_content (last msgs))\<rparr>)
              else Inr \<lparr>apiUrl = url,
                        headers = hdrs @ [(''Authorization'', ''Bearer '' @ apiKey)],
                        requestBody = ChatCompletions mdl msgs (Some 4000) None\<rparr>)))"

text \<open>
  \<^verbatim>\<open>
  if (provider === "gemini") {
    assistantMessage = responseData.candidates?.[0]?.content?.parts?.[0]?.text;
  } else if (provider === "anthropic") {
    assistantMessage = responseData.content?.[0]?.text;
  } else {
    assistantMessage = responseData.choices?.[0]?.message?.content;
  }
  \<close>
  The first access of each chain is a plain one on \<^verbatim>\<open>responseData\<close>.
\<close>

definition extractAssistantMessage :: "jsval \<Rightarrow> jsval \<Rightarrow> js_error + jsval" where
  "extractAssistantMessage provider responseData =
     (if provider = JStr ''gemini''
      then (case getProp responseData ''candidates'' of
              Inl e \<Rightarrow> Inl e
            | Inr candidates \<Rightarrow>
                Inr (optProp (optProp (optProp (optProp (optProp candidates ''0'') ''content'')
                       ''parts'') ''0'') ''text''))
      else if provider = JStr ''anthropic''
      then (case getProp responseData ''content'' of
              Inl e \<Rightarrow> Inl e
            | Inr c \<Rightarrow> Inr (optProp (optProp c ''0'') ''text''))
      else (case getProp responseData ''choices'' of
              Inl e \<Rightarrow> Inl e
            | Inr choices \<Rightarrow>
                Inr (optProp (optProp (optProp choices ''0'') ''message'') ''content'')))"

text \<open>
  \<^verbatim>\<open>
  const providerEndpoint = req.body.endpoint || DEFAULT_ENDPOINTS["github"];
  const providerApiKey = req.body.apiKey || GITHUB_TOKEN;
  const provider = req.body.provider || "github";
  \<close>
  The body is an object here, validation has passed.
\<close>

definition providerEndpoint_of :: "express_req \<Rightarrow> jsval" where
  "providerEndpoint_of req = js_or (own_prop (body req) ''endpoint'') (JStr DEFAULT_ENDPOINTS_github)"

definition providerApiKey_of :: "environment \<Rightarrow> express_req \<Rightarrow> jsval" where
  "providerApiKey_of env req = js_or (own_prop (body req) ''apiKey'') (JStr (GITHUB_TOKEN env))"

definition provider_of :: "express_req \<Rightarrow> jsval" where
  "provider_of req = js_or (own_prop (body req) ''provider'') (JStr ''github'')"

text \<open>\<^verbatim>\<open>const { chatId, messages, model = "gpt-5" } = validation.data;\<close>\<close>

definition requestedModel :: "chat_request \<Rightarrow> string" where
  "requestedModel data = (case data_model data of None \<Rightarrow> ''gpt-5'' | Some s \<Rightarrow> s)"

text \<open>
  Lines 198 to 289: the provider call and what follows it. The result is what the
  \<^verbatim>\<open>try\<close> block produced (a reply, or a thrown error), the state, and the outbound calls
  made.
\<close>

definition callProvider ::
  "environment \<Rightarrow> server_state \<Rightarrow> express_req \<Rightarrow> string \<Rightarrow> chat_message list \<Rightarrow> string \<Rightarrow>
   (js_error + express_res) \<times> server_state \<times> outbound_request list" where
  "callProvider env st req c msgs mdl =
     (let providerEndpoint = providerEndpoint_of req;
          providerApiKey = providerApiKey_of env req;
          provider = provider_of req
      in case buildRequest provider providerEndpoint providerApiKey mdl msgs of
           Inl e \<Rightarrow> (Inl e, st, [])
         | Inr request \<Rightarrow>
             (case fetch env request of
                Inl e \<Rightarrow> (Inl e, st, [request])
              | Inr apiResponse \<Rightarrow>
                  if \<not> ok apiResponse
                  then (case body_text apiResponse of
                          Inl e \<Rightarrow> (Inl e, st, [request])
                        | Inr errorText \<Rightarrow>
                            (Inr \<lparr>statusCode = status apiResponse,
                                  json = ErrorJson ''Failed to get response from AI model''
                                           (Some (Text errorText))\<rparr>,
                             st, [request]))
                  else (case body_json apiResponse of
                          Inl e \<Rightarrow> (Inl e, st, [request])
                        | Inr responseData \<Rightarrow>
                            (case extractAssistantMessage provider responseData of
                               Inl e \<Rightarrow> (Inl e, st, [request])
                             | Inr assistantMessage \<Rightarrow>
                                 if \<not> truthy assistantMessage
                                 then (Inr \<lparr>statusCode = 500,
                                            json = ErrorJson ''No response from AI model'' None\<rparr>,
                                       st, [request])
                                 else (let (savedMessage, sto) =
                                             createMessage (storage st) (assistantMessageUuid env)
                                               (assistantMessageDate env)
                                               \<lparr>chatId = c, role = Assistant,
                                                content = assistantMessage, model = Some mdl\<rparr>
                                       in (Inr \<lparr>statusCode = 200,
                                                json = ChatJson assistantMessage (id' savedMessage)
                                                         mdl\<rparr>,
                                           st\<lparr>storage := sto\<rparr>, [request]))))))"

text \<open>
  The \<^verbatim>\<open>try\<close> block from its start: the rate-limit gate, validation, the chat lookup,
  the user message, then the provider call.
\<close>

definition chat_try ::
  "environment \<Rightarrow> server_state \<Rightarrow> express_req \<Rightarrow>
   (js_error + express_res) \<times> server_state \<times> outbound_request list" where
  "chat_try env st req =
     (let (allowed, rl) = checkRateLimit (dateNow env) (rateLimitMap st) (clientIp req)
                            (globalRateLimit st);
          st1 = st\<lparr>rateLimitMap := rl\<rparr>
      in if \<not> allowed
         then (Inr \<lparr>statusCode = 429,
                    json = ErrorJson
                      ''Rate limit exceeded. Please wait before sending another message.'' None\<rparr>,
               st1, [])
         else (case safeParse (body req) of
                 Inl issues \<Rightarrow>
                   (Inr \<lparr>statusCode = 400,
                         json = ErrorJson ''Invalid request format'' (Some (Issues issues))\<rparr>,
                    st1, [])
               | Inr data \<Rightarrow>
                   (let mdl = requestedModel data
                    in case getChat (storage st1) (data_chatId data) of
                         None \<Rightarrow>
                           (Inr \<lparr>statusCode = 404, json = ErrorJson ''Chat not found'' None\<rparr>,
                            st1, [])
                       | Some chat \<Rightarrow>
                           (case storeUserMessage env (storage st1) (data_chatId data)
                                   (data_messages data) of
                              Inl e \<Rightarrow> (Inl e, st1, [])
                            | Inr sto \<Rightarrow>
                                callProvider env (st1\<lparr>storage := sto\<rparr>) req (data_chatId data)
                                  (data_messages data) mdl))))"

text \<open>
  The \<^verbatim>\<open>catch\<close> block:
  \<^verbatim>\<open>
  if (error.message?.includes('quota') || error.message?.includes('rate limit'))
    return res.status(429).json({ error: "API rate limit exceeded. ..." });
  if (error.message?.includes('unauthorized') || error.message?.includes('invalid'))
    return res.status(401).json({ error: "Invalid API key. ..." });
  res.status(500).json({ error: "Failed to process chat request", details: error.message });
  \<close>
\<close>

definition chat_catch :: "js_error \<Rightarrow> express_res" where
  "chat_catch error =
     (if js_includes (message error) ''quota'' \<or> js_includes (message error) ''rate limit''
      then \<lparr>statusCode = 429,
            json = ErrorJson
              ''API rate limit exceeded. Please wait before sending another message.'' None\<rparr>
      else if js_includes (message error) ''unauthorized'' \<or> js_includes (message error) ''invalid''
      then \<lparr>statusCode = 401,
            json = ErrorJson ''Invalid API key. Please check your API key permissions.'' None\<rparr>
      else \<lparr>statusCode = 500,
            json = ErrorJson ''Failed to process chat request'' (Some (Text (message error)))\<rparr>)"

text \<open>The handler: the reply sent, the state afterwards, and the outbound calls made.\<close>

definition chat_handler ::
  "environment \<Rightarrow> server_state \<Rightarrow> express_req \<Rightarrow>
   express_res \<times> server_state \<times> outbound_request list" where
  "chat_handler env st req =
     (case chat_try env st req of
        (Inl error, st', calls) \<Rightarrow> (chat_catch error, st', calls)
      | (Inr res, st', calls) \<Rightarrow> (res, st', calls))"

section \<open>Names for the stages of the handler\<close>

text \<open>
  The two components of the gate's result, and the two records the handler hands to
  \<^verbatim>\<open>createMessage\<close>, as they are once stored.
\<close>

definition admitted :: "environment \<Rightarrow> server_state \<Rightarrow> express_req \<Rightarrow> bool" where
  "admitted env st req =
     fst (checkRateLimit (dateNow env) (rateLimitMap st) (clientIp req) (globalRateLimit st))"

definition afterGate :: "environment \<Rightarrow> server_state \<Rightarrow> express_req \<Rightarrow> server_state" where
  "afterGate env st req =
     st\<lparr>rateLimitMap :=
          snd (checkRateLimit (dateNow env) (rateLimitMap st) (clientIp req) (globalRateLimit st))\<rparr>"

definition userMessage_of :: "environment \<Rightarrow> chat_request \<Rightarrow> Message" where
  "userMessage_of env data =
     \<lparr>chatId = data_chatId data, role = User,
      content = JStr (msg_content (last (data_messages data))), model = None,
      id' = userMessageUuid env, timestamp = userMessageDate env\<rparr>"

definition assistantMessage_of :: "environment \<Rightarrow> chat_request \<Rightarrow> jsval \<Rightarrow> Message" where
  "assistantMessage_of env data a =
     \<lparr>chatId = data_chatId data, role = Assistant, content = a,
      model = Some (requestedModel data),
      id' = assistantMessageUuid env, timestamp = assistantMessageDate env\<rparr>"

section \<open>Concrete inputs\<close>

text \<open>
  One chat \<open>c1\<close> with no messages, an empty limiter with the default limit 3, a client at
  10.0.0.1 and a clock at 1000 ms; \<^verbatim>\<open>fetch\<close> answers every request with the given
  reply.
\<close>

definition fixture_chat :: "string \<times> Chat" where
  "fixture_chat = (''c1'', \<lparr>chat_id = ''c1'', name = ''Chat 1'', createdAt = 500, userId = None\<rparr>)"

definition fixture_state :: server_state where
  "fixture_state =
     \<lparr>rateLimitMap = Map.empty, globalRateLimit = 3,
      storage = \<lparr>chats = [fixture_chat], messages = []\<rparr>\<rparr>"

definition fixture_env :: "(js_error + api_response) \<Rightarrow> environment" where
  "fixture_env reply =
     \<lparr>dateNow = 1000, userMessageUuid = ''m1'', userMessageDate = 1001,
      assistantMessageUuid = ''m2'', assistantMessageDate = 1002,
      fetch = (\<lambda>request. reply), GITHUB_TOKEN = ''ghp''\<rparr>"

definition fixture_req :: "jsval \<Rightarrow> express_req" where
  "fixture_req b = \<lparr>ip = Some ''10.0.0.1'', remoteAddress = None, body = b\<rparr>"

definition fixture_message :: "string \<Rightarrow> string \<Rightarrow> int \<Rightarrow> string \<times> Message" where
  "fixture_message k c t =
     (k, \<lparr>chatId = c, role = User, content = JStr ''hello'', model = None, id' = k, timestamp = t\<rparr>)"

definition fixture_body :: "jsval list \<Rightarrow> (string \<times> jsval) list \<Rightarrow> jsval" where
  "fixture_body msgs config = JObj ([(''chatId'', JStr ''c1''), (''messages'', JArr msgs)] @ config)"

definition fixture_turn :: "string \<Rightarrow> string \<Rightarrow> jsval" where
  "fixture_turn r c = JObj [(''role'', JStr r), (''content'', JStr c)]"

definition fixture_reply :: "jsval \<Rightarrow> js_error + api_response" where
  "fixture_reply responseData =
     Inr \<lparr>status = 200, body_text = Inr ''(body)'', body_json = Inr responseData\<rparr>"

definition fixture_completion :: jsval where
  "fixture_completion =
     JObj [(''choices'', JArr [JObj [(''message'', JObj [(''content'', JStr ''yo'')])]])]"

section \<open>Properties of the rate limiter\<close>

lemma checkRateLimit_fresh:
  "m key = None \<Longrightarrow>
   checkRateLimit now m key limit = (True, m(key \<mapsto> \<lparr>count = 1, resetTime = now + 60000\<rparr>))"
  by (simp add: checkRateLimit_def)

lemma checkRateLimit_in_window:
  "m key = Some u \<Longrightarrow> now \<le> resetTime u \<Longrightarrow>
   checkRateLimit now m key limit =
     (if count u < limit then (True, m(key \<mapsto> u\<lparr>count := count u + 1\<rparr>)) else (False, m))"
  by (simp add: checkRateLimit_def)

lemma checkRateLimit_expired:
  "m key = Some u \<Longrightarrow> resetTime u < now \<Longrightarrow>
   checkRateLimit now m key limit = (True, m(key \<mapsto> \<lparr>count = 1, resetTime = now + 60000\<rparr>))"
  by (simp add: checkRateLimit_def)

lemma in_window_calls:
  "m key = Some \<lparr>count = c, resetTime = r\<rparr> \<Longrightarrow> c + int (length nows) \<le> limit \<Longrightarrow>
   list_all (\<lambda>t. t \<le> r) nows \<Longrightarrow>
   checkRateLimit_calls m key limit nows =
     (replicate (length nows) True, m(key \<mapsto> \<lparr>count = c + int (length nows), resetTime = r\<rparr>))"
proof (induction nows arbitrary: m c)
  case Nil
  then show ?case by (simp add: fun_upd_idem)
next
  case (Cons t ts)
  have step: "checkRateLimit t m key limit = (True, m(key \<mapsto> \<lparr>count = c + 1, resetTime = r\<rparr>))"
    using Cons.prems by (simp add: checkRateLimit_def)
  have "checkRateLimit_calls (m(key \<mapsto> \<lparr>count = c + 1, resetTime = r\<rparr>)) key limit ts =
      (replicate (length ts) True,
       (m(key \<mapsto> \<lparr>count = c + 1, resetTime = r\<rparr>))(key \<mapsto> \<lparr>count = c + 1 + int (length ts), resetTime = r\<rparr>))"
    using Cons.prems by (intro Cons.IH) auto
  then show ?case using step by (auto simp: algebra_simps)
qed

text \<open>
  The first \<open>limit\<close> calls of a fresh client, the first at time \<open>t0\<close> and the others at
  any times up to \<open>t0 + 60000\<close>, are all admitted and leave the counter at \<open>limit\<close>.
\<close>

lemma first_limit_calls:
  assumes fresh: "m key = None" and lim: "1 \<le> limit"
    and len: "int (length nows) = limit - 1"
    and win: "list_all (\<lambda>t. t \<le> t0 + 60000) nows"
  shows "checkRateLimit_calls m key limit (t0 # nows) =
     (replicate (nat limit) True, m(key \<mapsto> \<lparr>count = limit, resetTime = t0 + 60000\<rparr>))"
proof -
  let ?m1 = "m(key \<mapsto> \<lparr>count = 1, resetTime = t0 + 60000\<rparr>)"
  have "checkRateLimit_calls ?m1 key limit nows =
      (replicate (length nows) True,
       ?m1(key \<mapsto> \<lparr>count = 1 + int (length nows), resetTime = t0 + 60000\<rparr>))"
    using len win by (intro in_window_calls) auto
  moreover have "Suc (length nows) = nat limit" using len lim by linarith
  moreover have "1 + int (length nows) = limit" using len by simp
  ultimately show ?thesis
    using checkRateLimit_fresh [of m key t0 limit] fresh
    by (simp del: replicate_Suc add: replicate_Suc [symmetric])
qed

text \<open>
  Claim C1. For every client key and every limit of at least 1: a call for a key with no
  entry returns true and installs the entry with count 1 and reset time now + 60000 ms;
  a call for a key whose entry has not expired (the clock is not past its reset time)
  returns true and increments the count if the count is below the limit, and otherwise
  returns false and leaves the map as it is; and when a fresh client makes \<open>limit\<close>
  calls inside one window, all are admitted, and the call number \<open>limit + 1\<close> inside the
  same window returns false and leaves count and reset time unchanged.
\<close>

theorem checkRateLimit_counting_contract:
  assumes "1 \<le> limit"
  shows "(m key = None \<longrightarrow>
            checkRateLimit now m key limit =
              (True, m(key \<mapsto> \<lparr>count = 1, resetTime = now + 60000\<rparr>)))
       \<and> (\<forall>u. m key = Some u \<and> now \<le> resetTime u \<longrightarrow>
            checkRateLimit now m key limit =
              (if count u < limit then (True, m(key \<mapsto> u\<lparr>count := count u + 1\<rparr>))
               else (False, m)))
       \<and> (\<forall>t0 nows t. m key = None \<and> int (length nows) = limit - 1
              \<and> list_all (\<lambda>s. s \<le> t0 + 60000) nows \<and> t \<le> t0 + 60000 \<longrightarrow>
            (let (answers, m') = checkRateLimit_calls m key limit (t0 # nows)
             in answers = replicate (nat limit) True
                \<and> m' key = Some \<lparr>count = limit, resetTime = t0 + 60000\<rparr>
                \<and> checkRateLimit t m' key limit = (False, m')))"
proof (intro conjI allI impI)
  assume "m key = None"
  then show "checkRateLimit now m key limit =
      (True, m(key \<mapsto> \<lparr>count = 1, resetTime = now + 60000\<rparr>))"
    by (rule checkRateLimit_fresh)
next
  fix u assume "m key = Some u \<and> now \<le> resetTime u"
  then show "checkRateLimit now m key limit =
      (if count u < limit then (True, m(key \<mapsto> u\<lparr>count := count u + 1\<rparr>)) else (False, m))"
    by (simp add: checkRateLimit_in_window)
next
  fix t0 :: int and nows :: "int list" and t :: int
  assume h: "m key = None \<and> int (length nows) = limit - 1
      \<and> list_all (\<lambda>s. s \<le> t0 + 60000) nows \<and> t \<le> t0 + 60000"
  let ?m' = "m(key \<mapsto> \<lparr>count = limit, resetTime = t0 + 60000\<rparr>)"
  have run: "checkRateLimit_calls m key limit (t0 # nows) = (replicate (nat limit) True, ?m')"
    using h assms by (intro first_limit_calls) auto
  have "checkRateLimit t ?m' key limit = (False, ?m')"
    using h by (simp add: checkRateLimit_def)
  then show "let (answers, m') = checkRateLimit_calls m key limit (t0 # nows)
      in answers = replicate (nat limit) True
         \<and> m' key = Some \<lparr>count = limit, resetTime = t0 + 60000\<rparr>
         \<and> checkRateLimit t m' key limit = (False, m')"
    unfolding run by simp
qed

theorem checkRateLimit_counting_contract_witness:
  "(1::int) \<le> 3
   \<and> checkRateLimit 1000 Map.empty ''10.0.0.1'' 3 =
       (True, [''10.0.0.1'' \<mapsto> \<lparr>count = 1, resetTime = 61000\<rparr>])
   \<and> checkRateLimit 2000 [''10.0.0.1'' \<mapsto> \<lparr>count = 1, resetTime = 61000\<rparr>] ''10.0.0.1'' 3 =
       (True, [''10.0.0.1'' \<mapsto> \<lparr>count = 2, resetTime = 61000\<rparr>])
   \<and> fst (checkRateLimit_calls Map.empty ''10.0.0.1'' 3 [1000, 2000, 61000]) = [True, True, True]
   \<and> snd (checkRateLimit_calls Map.empty ''10.0.0.1'' 3 [1000, 2000, 61000]) ''10.0.0.1'' =
       Some \<lparr>count = 3, resetTime = 61000\<rparr>
   \<and> fst (checkRateLimit 61000
        (snd (checkRateLimit_calls Map.empty ''10.0.0.1'' 3 [1000, 2000, 61000])) ''10.0.0.1'' 3) = False"
proof -
  have lim: "(1::int) \<le> 3" by simp
  note c = checkRateLimit_counting_contract [OF lim, of Map.empty "''10.0.0.1''"]
  have a: "checkRateLimit 1000 Map.empty ''10.0.0.1'' 3 =
       (True, [''10.0.0.1'' \<mapsto> \<lparr>count = 1, resetTime = 61000\<rparr>])"
    using c [of 1000] by simp
  have b: "checkRateLimit 2000 [''10.0.0.1'' \<mapsto> \<lparr>count = 1, resetTime = 61000\<rparr>] ''10.0.0.1'' 3 =
       (True, [''10.0.0.1'' \<mapsto> \<lparr>count = 2, resetTime = 61000\<rparr>])"
    using checkRateLimit_counting_contract [OF lim,
        of "[''10.0.0.1'' \<mapsto> \<lparr>count = 1, resetTime = 61000\<rparr>]" "''10.0.0.1''" 2000]
    by simp
  have "let (answers, m') = checkRateLimit_calls Map.empty ''10.0.0.1'' 3 (1000 # [2000, 61000])
      in answers = replicate (nat 3) True
         \<and> m' ''10.0.0.1'' = Some \<lparr>count = 3, resetTime = 1000 + 60000\<rparr>
         \<and> checkRateLimit 61000 m' ''10.0.0.1'' 3 = (False, m')"
    using c [of 0] by (elim conjE allE [of _ 1000] allE [of _ "[2000, 61000]"] allE [of _ 61000] impE) simp_all
  then have d: "fst (checkRateLimit_calls Map.empty ''10.0.0.1'' 3 [1000, 2000, 61000]) = [True, True, True]
     \<and> snd (checkRateLimit_calls Map.empty ''10.0.0.1'' 3 [1000, 2000, 61000]) ''10.0.0.1'' =
         Some \<lparr>count = 3, resetTime = 61000\<rparr>
     \<and> fst (checkRateLimit 61000
        (snd (checkRateLimit_calls Map.empty ''10.0.0.1'' 3 [1000, 2000, 61000])) ''10.0.0.1'' 3) = False"
    by (simp add: case_prod_unfold Let_def numeral_3_eq_3)
  from lim a b d show ?thesis by blast
qed

text \<open>
  Claim C2, as stated, fails on the code: the guard is \<^verbatim>\<open>now > userLimit.resetTime\<close>,
  so at \<open>now = resetTime\<close> the window is still open. With the counter at the limit the
  call at exactly the reset time is rejected and the entry is not overwritten.
\<close>

theorem boundary_not_expired_counterexample:
  "checkRateLimit 61000 [''10.0.0.1'' \<mapsto> \<lparr>count = 3, resetTime = 61000\<rparr>] ''10.0.0.1'' 3 =
     (False, [''10.0.0.1'' \<mapsto> \<lparr>count = 3, resetTime = 61000\<rparr>])"
  by (simp add: checkRateLimit_def)

text \<open>
  Claim C2, amended. For every existing entry, a call whose clock reading is strictly
  past the entry's reset time treats the window as expired: it overwrites the entry with
  count 1 and reset time now + 60000 ms and returns true. A call at exactly the reset
  time is still inside the window: it is admitted (and counted) only while the count is
  below the limit.
\<close>

theorem window_expiry_strict:
  assumes "m key = Some u"
  shows "(resetTime u < now \<longrightarrow>
            checkRateLimit now m key limit =
              (True, m(key \<mapsto> \<lparr>count = 1, resetTime = now + 60000\<rparr>)))
       \<and> (now = resetTime u \<longrightarrow>
            checkRateLimit now m key limit =
              (if count u < limit then (True, m(key \<mapsto> u\<lparr>count := count u + 1\<rparr>))
               else (False, m)))"
  using assms by (simp add: checkRateLimit_def)

theorem window_expiry_strict_witness:
  "checkRateLimit 61001 [''10.0.0.1'' \<mapsto> \<lparr>count = 3, resetTime = 61000\<rparr>] ''10.0.0.1'' 3 =
     (True, [''10.0.0.1'' \<mapsto> \<lparr>count = 1, resetTime = 121001\<rparr>])
   \<and> checkRateLimit 61000 [''10.0.0.1'' \<mapsto> \<lparr>count = 2, resetTime = 61000\<rparr>] ''10.0.0.1'' 3 =
     (True, [''10.0.0.1'' \<mapsto> \<lparr>count = 3, resetTime = 61000\<rparr>])"
proof -
  have e1: "[''10.0.0.1'' \<mapsto> \<lparr>count = 3, resetTime = 61000\<rparr>] ''10.0.0.1'' =
      Some \<lparr>count = 3, resetTime = 61000\<rparr>" by simp
  have e2: "[''10.0.0.1'' \<mapsto> \<lparr>count = 2, resetTime = 61000\<rparr>] ''10.0.0.1'' =
      Some \<lparr>count = 2, resetTime = 61000\<rparr>" by simp
  show ?thesis
    using window_expiry_strict [of "[''10.0.0.1'' \<mapsto> \<lparr>count = 3, resetTime = 61000\<rparr>]"
            "''10.0.0.1''" "\<lparr>count = 3, resetTime = 61000\<rparr>" 61001 3]
          window_expiry_strict [of "[''10.0.0.1'' \<mapsto> \<lparr>count = 2, resetTime = 61000\<rparr>]"
            "''10.0.0.1''" "\<lparr>count = 2, resetTime = 61000\<rparr>" 61000 3]
          e1 e2
    by simp
qed

section \<open>Properties of the storage\<close>

lemma fold_jsmap_delete:
  "fold (\<lambda>k ms. jsmap_delete ms k) ks kvs = filter (\<lambda>(k, v). k \<notin> set ks) kvs"
proof (induction ks arbitrary: kvs)
  case Nil
  then show ?case by simp
next
  case (Cons a ks)
  have "fold (\<lambda>k ms. jsmap_delete ms k) (a # ks) kvs =
      filter (\<lambda>(k, v). k \<notin> set ks) (jsmap_delete kvs a)"
    by (simp add: Cons.IH)
  also have "\<dots> = filter (\<lambda>(k, v). k \<notin> set (a # ks)) kvs"
    by (auto simp: jsmap_delete_def intro: filter_cong)
  finally show ?case .
qed

lemma key_selected_iff:
  assumes "distinct (map fst kvs)" and "(k, v) \<in> set kvs"
  shows "k \<in> set (map fst (filter P kvs)) \<longleftrightarrow> P (k, v)"
proof
  assume "k \<in> set (map fst (filter P kvs))"
  then obtain v' where v': "(k, v') \<in> set kvs" "P (k, v')" by auto
  with assms have "v' = v" by (meson eq_key_imp_eq_value)
  with v' show "P (k, v)" by simp
next
  assume "P (k, v)"
  with assms(2) show "k \<in> set (map fst (filter P kvs))" by force
qed

lemma messages_deleteChat:
  assumes "distinct (map fst (messages st))"
  shows "messages (deleteChat st i) = filter (\<lambda>(k, m). chatId m \<noteq> i) (messages st)"
proof -
  have "filter (\<lambda>(k, v). k \<notin> set (map fst (filter (\<lambda>(k, m). chatId m = i) (messages st)))) (messages st)
      = filter (\<lambda>(k, m). chatId m \<noteq> i) (messages st)"
    by (rule filter_cong [OF refl]) (use key_selected_iff [OF assms] in fastforce)
  then show ?thesis by (simp add: deleteChat_def fold_jsmap_delete)
qed

lemma deleteChat_own_messages:
  "getMessagesByChatId (deleteChat st i) i = []"
proof -
  have "\<And>k m. (k, m) \<in> set (messages st) \<Longrightarrow> chatId m = i \<Longrightarrow>
      k \<in> set (map fst (filter (\<lambda>(k, m). chatId m = i) (messages st)))"
    by force
  then have "filter (\<lambda>m. chatId m = i) (map snd (messages (deleteChat st i))) = []"
    by (auto simp: deleteChat_def fold_jsmap_delete filter_empty_conv)
  then show ?thesis by (simp add: getMessagesByChatId_def)
qed

lemma filter_other_chat:
  "c \<noteq> i \<Longrightarrow>
   filter (\<lambda>m. chatId m = c) (map snd (filter (\<lambda>(k, m). chatId m \<noteq> i) kvs))
     = filter (\<lambda>m. chatId m = c) (map snd kvs)"
  by (induction kvs) auto

lemma deleteChat_other_messages:
  assumes "distinct (map fst (messages st))" and "c \<noteq> i"
  shows "getMessagesByChatId (deleteChat st i) c = getMessagesByChatId st c"
proof -
  have "filter (\<lambda>m. chatId m = c) (map snd (filter (\<lambda>(k, m). chatId m \<noteq> i) (messages st)))
      = filter (\<lambda>m. chatId m = c) (map snd (messages st))"
    using assms(2) by (rule filter_other_chat)
  then show ?thesis by (simp add: getMessagesByChatId_def messages_deleteChat [OF assms(1)])
qed

lemma jsmap_set_fresh: "k \<notin> fst ` set kvs \<Longrightarrow> jsmap_set kvs k v = kvs @ [(k, v)]"
  by (induction kvs) auto

lemma jsmap_get_jsmap_set: "jsmap_get (jsmap_set kvs k v) = (jsmap_get kvs)(k \<mapsto> v)"
proof (rule ext)
  fix x
  show "jsmap_get (jsmap_set kvs k v) x = ((jsmap_get kvs)(k \<mapsto> v)) x"
    by (induction kvs) (auto simp: jsmap_get_def)
qed

lemma jsmap_set_member: "(k, v) \<in> set (jsmap_set kvs k v)"
  by (induction kvs) auto

lemma getMessagesByChatId_member:
  "(k, m) \<in> set (messages sto) \<Longrightarrow> chatId m = c \<Longrightarrow> m \<in> set (getMessagesByChatId sto c)"
  by (force simp: getMessagesByChatId_def)

text \<open>
  The keys of the message map stay distinct under the operations that write it.
\<close>

lemma keys_jsmap_set: "map fst (jsmap_set kvs k v) =
    (if k \<in> set (map fst kvs) then map fst kvs else map fst kvs @ [k])"
  by (induction kvs) (auto simp: rev_image_eqI)

lemma distinct_jsmap_set:
  "distinct (map fst kvs) \<Longrightarrow> distinct (map fst (jsmap_set kvs k v))"
  by (simp add: keys_jsmap_set)

lemma createMessage_distinct:
  "distinct (map fst (messages st)) \<Longrightarrow>
   distinct (map fst (messages (snd (createMessage st uuid date insertMessage))))"
  by (simp add: createMessage_def Let_def distinct_jsmap_set)

lemma deleteChat_distinct:
  "distinct (map fst (messages st)) \<Longrightarrow> distinct (map fst (messages (deleteChat st i)))"
  by (simp add: messages_deleteChat distinct_map_filter)

text \<open>
  Claim C9. For every chat id and any number of stored messages whose \<^verbatim>\<open>chatId\<close> equals
  it, after \<^verbatim>\<open>deleteChat(id)\<close> the call \<^verbatim>\<open>getMessagesByChatId(id)\<close> returns the empty
  list, and the messages of every other chat are unchanged: the message map keeps exactly
  the entries of the other chats, in their order, and every other chat reads back as
  before. The keys of the message map are distinct, as the keys of a \<^verbatim>\<open>Map\<close> are.
\<close>

theorem cascade_delete:
  assumes "distinct (map fst (messages st))"
  shows "getMessagesByChatId (deleteChat st i) i = []
     \<and> (\<forall>c. c \<noteq> i \<longrightarrow> getMessagesByChatId (deleteChat st i) c = getMessagesByChatId st c)
     \<and> messages (deleteChat st i) = filter (\<lambda>(k, m). chatId m \<noteq> i) (messages st)"
  using assms
  by (simp add: deleteChat_own_messages deleteChat_other_messages messages_deleteChat)

theorem cascade_delete_witness:
  "distinct (map fst [fixture_message ''m1'' ''c1'' 30, fixture_message ''m2'' ''c2'' 20,
                      fixture_message ''m3'' ''c1'' 10])
   \<and> getMessagesByChatId \<lparr>chats = [fixture_chat], messages =
        [fixture_message ''m1'' ''c1'' 30, fixture_message ''m2'' ''c2'' 20,
         fixture_message ''m3'' ''c1'' 10]\<rparr> ''c1''
       = [snd (fixture_message ''m3'' ''c1'' 10), snd (fixture_message ''m1'' ''c1'' 30)]
   \<and> getMessagesByChatId (deleteChat \<lparr>chats = [fixture_chat], messages =
        [fixture_message ''m1'' ''c1'' 30, fixture_message ''m2'' ''c2'' 20,
         fixture_message ''m3'' ''c1'' 10]\<rparr> ''c1'') ''c1'' = []
   \<and> getMessagesByChatId (deleteChat \<lparr>chats = [fixture_chat], messages =
        [fixture_message ''m1'' ''c1'' 30, fixture_message ''m2'' ''c2'' 20,
         fixture_message ''m3'' ''c1'' 10]\<rparr> ''c1'') ''c2''
       = [snd (fixture_message ''m2'' ''c2'' 20)]"
proof -
  let ?st = "\<lparr>chats = [fixture_chat], messages =
        [fixture_message ''m1'' ''c1'' 30, fixture_message ''m2'' ''c2'' 20,
         fixture_message ''m3'' ''c1'' 10]\<rparr>"
  have d: "distinct (map fst (messages ?st))" by (simp add: fixture_message_def)
  have before: "getMessagesByChatId ?st ''c1''
       = [snd (fixture_message ''m3'' ''c1'' 10), snd (fixture_message ''m1'' ''c1'' 30)]"
    by (simp add: getMessagesByChatId_def fixture_message_def)
  have other: "getMessagesByChatId ?st ''c2'' = [snd (fixture_message ''m2'' ''c2'' 20)]"
    by (simp add: getMessagesByChatId_def fixture_message_def)
  from cascade_delete [OF d, of "''c1''"]
  have "getMessagesByChatId (deleteChat ?st ''c1'') ''c1'' = []"
    and "getMessagesByChatId (deleteChat ?st ''c1'') ''c2'' = getMessagesByChatId ?st ''c2''"
    by simp_all
  with d before other show ?thesis by simp
qed

section \<open>The stages of the handler\<close>

lemma checkRateLimit_rejected_unchanged:
  "\<not> fst (checkRateLimit now m k l) \<Longrightarrow> snd (checkRateLimit now m k l) = m"
  by (auto simp: checkRateLimit_def split: option.splits if_splits)

lemma checkRateLimit_admitted_changes:
  assumes "fst (checkRateLimit now m k l)"
  shows "snd (checkRateLimit now m k l) k \<noteq> m k"
proof (cases "m k")
  case None
  then show ?thesis by (simp add: checkRateLimit_def)
next
  case (Some u)
  have "count (u\<lparr>count := count u + 1\<rparr>) \<noteq> count u" by simp
  then have neq: "u\<lparr>count := count u + 1\<rparr> \<noteq> u" by metis
  have "resetTime u < now \<Longrightarrow> \<lparr>count = 1, resetTime = now + 60000\<rparr> \<noteq> u"
    by (cases u) auto
  with Some assms neq show ?thesis
    by (auto simp: checkRateLimit_def split: if_splits)
qed

lemma afterGate_rejected: "\<not> admitted env st req \<Longrightarrow> afterGate env st req = st"
  by (simp add: admitted_def afterGate_def checkRateLimit_rejected_unchanged)

lemma chat_try_rejected:
  "\<not> admitted env st req \<Longrightarrow>
   chat_try env st req =
     (Inr \<lparr>statusCode = 429,
           json = ErrorJson ''Rate limit exceeded. Please wait before sending another message.'' None\<rparr>,
      st, [])"
  using afterGate_rejected [of env st req]
  by (simp add: chat_try_def admitted_def afterGate_def case_prod_unfold Let_def)

lemma chat_try_invalid:
  "admitted env st req \<Longrightarrow> safeParse (body req) = Inl issues \<Longrightarrow>
   chat_try env st req =
     (Inr \<lparr>statusCode = 400, json = ErrorJson ''Invalid request format'' (Some (Issues issues))\<rparr>,
      afterGate env st req, [])"
  by (simp add: chat_try_def admitted_def afterGate_def case_prod_unfold Let_def)

lemma chat_try_valid:
  "admitted env st req \<Longrightarrow> safeParse (body req) = Inr data \<Longrightarrow>
   chat_try env st req =
     (case getChat (storage st) (data_chatId data) of
        None \<Rightarrow> (Inr \<lparr>statusCode = 404, json = ErrorJson ''Chat not found'' None\<rparr>,
                 afterGate env st req, [])
      | Some chat \<Rightarrow>
          (case storeUserMessage env (storage st) (data_chatId data) (data_messages data) of
             Inl e \<Rightarrow> (Inl e, afterGate env st req, [])
           | Inr sto \<Rightarrow>
               callProvider env ((afterGate env st req)\<lparr>storage := sto\<rparr>) req (data_chatId data)
                 (data_messages data) (requestedModel data)))"
  by (simp add: chat_try_def admitted_def afterGate_def case_prod_unfold Let_def
      split: option.splits sum.splits)

lemma chat_try_unknown_chat:
  "admitted env st req \<Longrightarrow> safeParse (body req) = Inr data \<Longrightarrow>
   getChat (storage st) (data_chatId data) = None \<Longrightarrow>
   chat_try env st req =
     (Inr \<lparr>statusCode = 404, json = ErrorJson ''Chat not found'' None\<rparr>, afterGate env st req, [])"
  by (simp add: chat_try_valid)

lemma storeUserMessage_nonempty:
  "msgs \<noteq> [] \<Longrightarrow>
   storeUserMessage env sto c msgs =
     Inr (sto\<lparr>messages :=
            (if msg_role (last msgs) = User
             then jsmap_set (messages sto) (userMessageUuid env)
                    \<lparr>chatId = c, role = User, content = JStr (msg_content (last msgs)),
                     model = None, id' = userMessageUuid env, timestamp = userMessageDate env\<rparr>
             else messages sto)\<rparr>)"
  by (simp add: storeUserMessage_def createMessage_def Let_def)

lemma chat_try_provider_stage:
  assumes "admitted env st req" "safeParse (body req) = Inr data"
    "getChat (storage st) (data_chatId data) = Some chat" "data_messages data \<noteq> []"
  shows "chat_try env st req =
     callProvider env
       ((afterGate env st req)\<lparr>storage := (storage st)\<lparr>messages :=
            (if msg_role (last (data_messages data)) = User
             then jsmap_set (messages (storage st)) (userMessageUuid env) (userMessage_of env data)
             else messages (storage st))\<rparr>\<rparr>)
       req (data_chatId data) (data_messages data) (requestedModel data)"
  using assms
  by (simp add: chat_try_valid storeUserMessage_nonempty userMessage_of_def)

lemma chat_catch_terminated:
  "chat_catch (JsError ''terminated'') =
     \<lparr>statusCode = 500,
      json = ErrorJson ''Failed to process chat request'' (Some (Text ''terminated''))\<rparr>"
  by (simp add: chat_catch_def)

lemma chat_catch_not_200: "statusCode (chat_catch e) \<noteq> 200"
  by (simp add: chat_catch_def)

lemma chat_catch_role_error:
  "chat_catch (JsError ''Cannot read properties of undefined (reading 'role')'') =
     \<lparr>statusCode = 500,
      json = ErrorJson ''Failed to process chat request''
               (Some (Text ''Cannot read properties of undefined (reading 'role')''))\<rparr>"
  by (simp add: chat_catch_def)

lemma chat_catch_choices_error:
  "chat_catch (JsError ''Cannot read properties of null (reading 'choices')'') =
     \<lparr>statusCode = 500,
      json = ErrorJson ''Failed to process chat request''
               (Some (Text ''Cannot read properties of null (reading 'choices')''))\<rparr>"
  by (simp add: chat_catch_def)

lemma callProvider_calls:
  "buildRequest (provider_of req) (providerEndpoint_of req) (providerApiKey_of env req) mdl msgs
     = Inr request \<Longrightarrow>
   snd (snd (callProvider env st req c msgs mdl)) = [request]"
  by (simp add: callProvider_def Let_def case_prod_unfold split: sum.splits)

lemma callProvider_not_ok:
  "buildRequest (provider_of req) (providerEndpoint_of req) (providerApiKey_of env req) mdl msgs
     = Inr request \<Longrightarrow>
   fetch env request = Inr apiResponse \<Longrightarrow> \<not> ok apiResponse \<Longrightarrow>
   body_text apiResponse = Inr errorText \<Longrightarrow>
   callProvider env st req c msgs mdl =
     (Inr \<lparr>statusCode = status apiResponse,
           json = ErrorJson ''Failed to get response from AI model'' (Some (Text errorText))\<rparr>,
      st, [request])"
  by (simp add: callProvider_def Let_def)

lemma callProvider_text_rejects:
  "buildRequest (provider_of req) (providerEndpoint_of req) (providerApiKey_of env req) mdl msgs
     = Inr request \<Longrightarrow>
   fetch env request = Inr apiResponse \<Longrightarrow> \<not> ok apiResponse \<Longrightarrow>
   body_text apiResponse = Inl e \<Longrightarrow>
   callProvider env st req c msgs mdl = (Inl e, st, [request])"
  by (simp add: callProvider_def Let_def)

lemma callProvider_no_text:
  "buildRequest (provider_of req) (providerEndpoint_of req) (providerApiKey_of env req) mdl msgs
     = Inr request \<Longrightarrow>
   fetch env request = Inr apiResponse \<Longrightarrow> ok apiResponse \<Longrightarrow>
   body_json apiResponse = Inr responseData \<Longrightarrow>
   extractAssistantMessage (provider_of req) responseData = Inr a \<Longrightarrow> \<not> truthy a \<Longrightarrow>
   callProvider env st req c msgs mdl =
     (Inr \<lparr>statusCode = 500, json = ErrorJson ''No response from AI model'' None\<rparr>, st, [request])"
  by (simp add: callProvider_def Let_def)

lemma callProvider_throws_on_extract:
  "buildRequest (provider_of req) (providerEndpoint_of req) (providerApiKey_of env req) mdl msgs
     = Inr request \<Longrightarrow>
   fetch env request = Inr apiResponse \<Longrightarrow> ok apiResponse \<Longrightarrow>
   body_json apiResponse = Inr responseData \<Longrightarrow>
   extractAssistantMessage (provider_of req) responseData = Inl e \<Longrightarrow>
   callProvider env st req c msgs mdl = (Inl e, st, [request])"
  by (simp add: callProvider_def Let_def)

lemma callProvider_success:
  "buildRequest (provider_of req) (providerEndpoint_of req) (providerApiKey_of env req) mdl msgs
     = Inr request \<Longrightarrow>
   fetch env request = Inr apiResponse \<Longrightarrow> ok apiResponse \<Longrightarrow>
   body_json apiResponse = Inr responseData \<Longrightarrow>
   extractAssistantMessage (provider_of req) responseData = Inr a \<Longrightarrow> truthy a \<Longrightarrow>
   callProvider env st req c msgs mdl =
     (Inr \<lparr>statusCode = 200, json = ChatJson a (assistantMessageUuid env) mdl\<rparr>,
      st\<lparr>storage := snd (createMessage (storage st) (assistantMessageUuid env)
            (assistantMessageDate env)
            \<lparr>chatId = c, role = Assistant, content = a, model = Some mdl\<rparr>)\<rparr>,
      [request])"
  by (simp add: callProvider_def createMessage_def Let_def)

lemma callProvider_200:
  assumes r: "fst (callProvider env st req c msgs mdl) = Inr res" and s: "statusCode res = 200"
  shows "\<exists>a. truthy a
     \<and> res = \<lparr>statusCode = 200, json = ChatJson a (assistantMessageUuid env) mdl\<rparr>
     \<and> fst (snd (callProvider env st req c msgs mdl)) =
         st\<lparr>storage := snd (createMessage (storage st) (assistantMessageUuid env)
               (assistantMessageDate env)
               \<lparr>chatId = c, role = Assistant, content = a, model = Some mdl\<rparr>)\<rparr>"
proof (cases "buildRequest (provider_of req) (providerEndpoint_of req) (providerApiKey_of env req) mdl msgs")
  case (Inl e)
  then show ?thesis using r by (simp add: callProvider_def)
next
  case built: (Inr request)
  show ?thesis
  proof (cases "fetch env request")
    case (Inl e)
    then show ?thesis using r built by (simp add: callProvider_def)
  next
    case fetched: (Inr apiResponse)
    show ?thesis
    proof (cases "ok apiResponse")
      case False
      then show ?thesis using r s built fetched
        by (cases "body_text apiResponse") (auto simp: callProvider_def ok_def)
    next
      case True
      show ?thesis
      proof (cases "body_json apiResponse")
        case (Inl e)
        then show ?thesis using r built fetched True by (simp add: callProvider_def)
      next
        case parsed: (Inr responseData)
        show ?thesis
        proof (cases "extractAssistantMessage (provider_of req) responseData")
          case (Inl e)
          then show ?thesis using r built fetched True parsed by (simp add: callProvider_def)
        next
          case extracted: (Inr a)
          show ?thesis
          proof (cases "truthy a")
            case False
            then show ?thesis using r s built fetched True parsed extracted
              by (auto simp: callProvider_def)
          next
            case truthy: True
            have "callProvider env st req c msgs mdl =
                (Inr \<lparr>statusCode = 200, json = ChatJson a (assistantMessageUuid env) mdl\<rparr>,
                 st\<lparr>storage := snd (createMessage (storage st) (assistantMessageUuid env)
                    (assistantMessageDate env)
                    \<lparr>chatId = c, role = Assistant, content = a, model = Some mdl\<rparr>)\<rparr>,
                 [request])"
              using built fetched True parsed extracted truthy
              by (simp add: callProvider_def createMessage_def Let_def)
            with r truthy show ?thesis by auto
          qed
        qed
      qed
    qed
  qed
qed

lemma chat_handler_rejected:
  "\<not> admitted env st req \<Longrightarrow>
   chat_handler env st req =
     (\<lparr>statusCode = 429,
       json = ErrorJson ''Rate limit exceeded. Please wait before sending another message.'' None\<rparr>,
      st, [])"
  by (simp add: chat_handler_def chat_try_rejected)

lemma chat_handler_calls: "snd (snd (chat_handler env st req)) = snd (snd (chat_try env st req))"
  by (simp add: chat_handler_def split: prod.splits sum.splits)

lemma chat_handler_state: "fst (snd (chat_handler env st req)) = fst (snd (chat_try env st req))"
  by (simp add: chat_handler_def split: prod.splits sum.splits)

lemma chat_handler_reply:
  "fst (chat_handler env st req) =
     (case fst (chat_try env st req) of Inl e \<Rightarrow> chat_catch e | Inr res \<Rightarrow> res)"
  by (simp add: chat_handler_def split: prod.splits sum.splits)

section \<open>The concrete inputs, evaluated\<close>

lemmas fixture_defs = fixture_chat_def fixture_state_def fixture_env_def fixture_req_def
  fixture_message_def fixture_body_def fixture_turn_def

lemmas parse_defs = safeParse_def parse_string_def parse_messages_field_def parse_model_field_def
  parse_message_def parse_role_def issues_of_def

lemma fixture_admitted: "admitted (fixture_env reply) fixture_state (fixture_req b)"
  by (simp add: admitted_def checkRateLimit_def clientIp_def fixture_defs)

lemma fixture_afterGate:
  "afterGate (fixture_env reply) fixture_state (fixture_req b) =
     fixture_state\<lparr>rateLimitMap := [''10.0.0.1'' \<mapsto> \<lparr>count = 1, resetTime = 61000\<rparr>]\<rparr>"
  by (simp add: afterGate_def checkRateLimit_def clientIp_def fixture_defs)

lemma fixture_getChat: "getChat (storage fixture_state) ''c1'' = Some (snd fixture_chat)"
  by (simp add: getChat_def jsmap_get_def fixture_defs)

text \<open>The request of the fixtures: the default provider, one user turn.\<close>

lemma fixture_default_request:
  "buildRequest (provider_of (fixture_req (fixture_body msgs [])))
      (providerEndpoint_of (fixture_req (fixture_body msgs [])))
      (providerApiKey_of (fixture_env reply) (fixture_req (fixture_body msgs []))) mdl ms =
     Inr \<lparr>apiUrl = ''https://models.inference.ai.azure.com/chat/completions'',
          headers = [(''Content-Type'', ''application/json''), (''Authorization'', ''Bearer ghp'')],
          requestBody = ChatCompletions mdl ms (Some 4000) None\<rparr>"
  by (simp add: buildRequest_def provider_of_def providerEndpoint_of_def providerApiKey_of_def
      js_or_def DEFAULT_ENDPOINTS_github_def fixture_defs)

lemma fixture_parse_one:
  "safeParse (body (fixture_req (fixture_body [fixture_turn ''user'' ''hi''] []))) =
     Inr \<lparr>data_chatId = ''c1'', data_messages = [ChatMessage User ''hi''], data_model = None\<rparr>"
  by (simp add: parse_defs fixture_defs)

lemma fixture_parse_two:
  "safeParse (body (fixture_req (fixture_body
       [fixture_turn ''user'' ''hi'', fixture_turn ''assistant'' ''hello''] []))) =
     Inr \<lparr>data_chatId = ''c1'',
          data_messages = [ChatMessage User ''hi'', ChatMessage Assistant ''hello''],
          data_model = None\<rparr>"
  by (simp add: parse_defs fixture_defs)

lemma fixture_parse_empty:
  "safeParse (body (fixture_req (fixture_body [] []))) =
     Inr \<lparr>data_chatId = ''c1'', data_messages = [], data_model = None\<rparr>"
  by (simp add: parse_defs fixture_defs)

lemma fixture_parse_bad_role:
  "safeParse (body (fixture_req (fixture_body [fixture_turn ''system'' ''hi''] []))) =
     Inl [[Key ''messages'', Index 0, Key ''role'']]"
  by (simp add: parse_defs fixture_defs)

lemma fixture_completion_text:
  "extractAssistantMessage (JStr ''github'') fixture_completion = Inr (JStr ''yo'')"
  by (simp add: fixture_completion_def extractAssistantMessage_def getProp_def optProp_def
      nullish_def)

lemma fixture_run_ok:
  assumes parsed: "safeParse (body (fixture_req (fixture_body turns []))) = Inr data"
    and cid: "data_chatId data = ''c1''" and nonempty: "data_messages data \<noteq> []"
    and extracted: "extractAssistantMessage (JStr ''github'') responseData = Inr a"
    and truthy: "truthy a"
  shows "chat_handler (fixture_env (fixture_reply responseData)) fixture_state
           (fixture_req (fixture_body turns [])) =
     (\<lparr>statusCode = 200, json = ChatJson a ''m2'' (requestedModel data)\<rparr>,
      fixture_state\<lparr>rateLimitMap := [''10.0.0.1'' \<mapsto> \<lparr>count = 1, resetTime = 61000\<rparr>],
        storage := \<lparr>chats = [fixture_chat],
          messages = jsmap_set
            (if msg_role (last (data_messages data)) = User
             then [(''m1'', \<lparr>chatId = ''c1'', role = User,
                     content = JStr (msg_content (last (data_messages data))),
                     model = None, id' = ''m1'', timestamp = 1001\<rparr>)]
             else [])
            ''m2'' \<lparr>chatId = ''c1'', role = Assistant, content = a,
                    model = (if requestedModel data = [] then None else Some (requestedModel data)),
                    id' = ''m2'', timestamp = 1002\<rparr>\<rparr>\<rparr>,
      [\<lparr>apiUrl = ''https://models.inference.ai.azure.com/chat/completions'',
        headers = [(''Content-Type'', ''application/json''), (''Authorization'', ''Bearer ghp'')],
        requestBody = ChatCompletions (requestedModel data) (data_messages data) (Some 4000) None\<rparr>])"
proof -
  let ?env = "fixture_env (fixture_reply responseData)"
  let ?req = "fixture_req (fixture_body turns [])"
  let ?request = "\<lparr>apiUrl = ''https://models.inference.ai.azure.com/chat/completions'',
        headers = [(''Content-Type'', ''application/json''), (''Authorization'', ''Bearer ghp'')],
        requestBody = ChatCompletions (requestedModel data) (data_messages data) (Some 4000) None\<rparr>"
  let ?reply = "\<lparr>status = 200, body_text = Inr ''(body)'', body_json = Inr responseData\<rparr>"
  have c: "getChat (storage fixture_state) (data_chatId data) = Some (snd fixture_chat)"
    by (simp add: cid fixture_getChat)
  have f: "fetch ?env ?request = Inr ?reply" by (simp add: fixture_env_def fixture_reply_def)
  have k: "ok ?reply" by (simp add: ok_def)
  have j: "body_json ?reply = Inr responseData" by simp
  have p: "provider_of ?req = JStr ''github''"
    by (simp add: provider_of_def js_or_def fixture_defs)
  have x: "extractAssistantMessage (provider_of ?req) responseData = Inr a"
    by (simp add: p extracted)
  show ?thesis
    unfolding chat_handler_def chat_try_provider_stage [OF fixture_admitted parsed c nonempty]
      callProvider_success [OF fixture_default_request f k j x truthy] fixture_afterGate
    by (simp add: createMessage_def Let_def userMessage_of_def cid fixture_state_def
        fixture_env_def fixture_reply_def)
qed

section \<open>Request shaping for Gemini\<close>

text \<open>
  A provider, endpoint or key that the request gives as a non-empty string is the one
  used; the defaults stand in only for a missing or falsy value.
\<close>

lemma supplied_config_is_used:
  "own_prop (body req) ''provider'' = JStr p \<Longrightarrow> p \<noteq> [] \<Longrightarrow> provider_of req = JStr p"
  "own_prop (body req) ''endpoint'' = JStr e \<Longrightarrow> e \<noteq> [] \<Longrightarrow> providerEndpoint_of req = JStr e"
  "own_prop (body req) ''apiKey'' = JStr k \<Longrightarrow> k \<noteq> [] \<Longrightarrow> providerApiKey_of env req = JStr k"
  by (simp_all add: provider_of_def providerEndpoint_of_def providerApiKey_of_def js_or_def)

lemma buildRequest_gemini:
  "msgs \<noteq> [] \<Longrightarrow>
   buildRequest (JStr ''gemini'') (JStr endpoint) (JStr apiKey) mdl msgs =
     Inr \<lparr>apiUrl = endpoint @ ''/models/'' @ mdl @ '':generateContent?key='' @ apiKey,
          headers = [(''Content-Type'', ''application/json'')],
          requestBody = GenerateContent (msg_content (last msgs))\<rparr>"
  by (simp add: buildRequest_def)

text \<open>
  Claim C3. For the provider \<^verbatim>\<open>gemini\<close> and every endpoint, key, model and non-empty
  message list with which a request reaches the provider stage (the limiter admits it,
  the body passes the schema, the chat exists), the handler makes exactly one outbound
  call: its URL is the endpoint followed by \<^verbatim>\<open>/models/\<close>, the model,
  \<^verbatim>\<open>:generateContent?key=\<close> and the key; its only header is the content type, so there
  is no Authorization header; its body holds one text, the content of the last message of
  the list, whatever the earlier turns were. Endpoint and key are the resolved ones (the
  request's, or the defaults where the request gives none), the model is the request's or
  \<^verbatim>\<open>gpt-5\<close>.
\<close>

theorem gemini_request_shaping:
  assumes "admitted env st req" and "safeParse (body req) = Inr data"
    and "getChat (storage st) (data_chatId data) = Some chat"
    and "data_messages data \<noteq> []"
    and "provider_of req = JStr ''gemini''"
    and "providerEndpoint_of req = JStr endpoint"
    and "providerApiKey_of env req = JStr apiKey"
  shows "snd (snd (chat_handler env st req)) =
     [\<lparr>apiUrl = endpoint @ ''/models/'' @ requestedModel data @ '':generateContent?key='' @ apiKey,
       headers = [(''Content-Type'', ''application/json'')],
       requestBody = GenerateContent (msg_content (last (data_messages data)))\<rparr>]"
proof -
  have "buildRequest (provider_of req) (providerEndpoint_of req) (providerApiKey_of env req)
      (requestedModel data) (data_messages data) =
     Inr \<lparr>apiUrl = endpoint @ ''/models/'' @ requestedModel data @ '':generateContent?key='' @ apiKey,
          headers = [(''Content-Type'', ''application/json'')],
          requestBody = GenerateContent (msg_content (last (data_messages data)))\<rparr>"
    using assms(4-7) by (simp add: buildRequest_gemini)
  then show ?thesis
    unfolding chat_handler_calls chat_try_provider_stage [OF assms(1-4)]
    by (rule callProvider_calls)
qed

theorem gemini_request_shaping_witness:
  "snd (snd (chat_handler (fixture_env (Inl (JsError ''fetch failed''))) fixture_state
      (fixture_req (fixture_body [fixture_turn ''assistant'' ''earlier'', fixture_turn ''user'' ''hi'']
         [(''model'', JStr ''gemini-pro''), (''provider'', JStr ''gemini''),
          (''endpoint'', JStr ''https://g.example/v1beta''), (''apiKey'', JStr ''KEY'')])))) =
     [\<lparr>apiUrl = ''https://g.example/v1beta/models/gemini-pro:generateContent?key=KEY'',
       headers = [(''Content-Type'', ''application/json'')],
       requestBody = GenerateContent ''hi''\<rparr>]"
proof -
  let ?b = "fixture_body [fixture_turn ''assistant'' ''earlier'', fixture_turn ''user'' ''hi'']
         [(''model'', JStr ''gemini-pro''), (''provider'', JStr ''gemini''),
          (''endpoint'', JStr ''https://g.example/v1beta''), (''apiKey'', JStr ''KEY'')]"
  let ?data = "\<lparr>data_chatId = ''c1'',
      data_messages = [ChatMessage Assistant ''earlier'', ChatMessage User ''hi''],
      data_model = Some ''gemini-pro''\<rparr>"
  have p: "safeParse (body (fixture_req ?b)) = Inr ?data"
    by (simp add: parse_defs fixture_defs)
  have c: "getChat (storage fixture_state) (data_chatId ?data) = Some (snd fixture_chat)"
    by (simp add: getChat_def jsmap_get_def fixture_defs)
  have n: "data_messages ?data \<noteq> []" by simp
  have g: "provider_of (fixture_req ?b) = JStr ''gemini''"
    by (simp add: provider_of_def js_or_def fixture_defs)
  have e: "providerEndpoint_of (fixture_req ?b) = JStr ''https://g.example/v1beta''"
    by (simp add: providerEndpoint_of_def js_or_def fixture_defs)
  have k: "providerApiKey_of (fixture_env (Inl (JsError ''fetch failed''))) (fixture_req ?b) = JStr ''KEY''"
    by (simp add: providerApiKey_of_def js_or_def fixture_defs)
  show ?thesis
    using gemini_request_shaping [OF fixture_admitted p c n g e k]
    by (simp add: requestedModel_def)
qed

section \<open>Extraction of the assistant's text\<close>

lemma extractAssistantMessage_non_null:
  "\<not> nullish responseData \<Longrightarrow>
   extractAssistantMessage provider responseData =
     Inr (if provider = JStr ''gemini''
          then optProp (optProp (optProp (optProp (optProp (own_prop responseData ''candidates'')
                 ''0'') ''content'') ''parts'') ''0'') ''text''
          else if provider = JStr ''anthropic''
          then optProp (optProp (own_prop responseData ''content'') ''0'') ''text''
          else optProp (optProp (optProp (own_prop responseData ''choices'') ''0'') ''message'')
                 ''content'')"
  by (simp add: extractAssistantMessage_def getProp_def nullish_def)

lemma extractAssistantMessage_documented_shapes:
  "extractAssistantMessage (JStr ''gemini'')
     (JObj [(''candidates'', JArr [JObj [(''content'', JObj [(''parts'', JArr [JObj [(''text'', t)]])])]])])
     = Inr t"
  "extractAssistantMessage (JStr ''anthropic'') (JObj [(''content'', JArr [JObj [(''text'', t)]])])
     = Inr t"
  "p \<noteq> JStr ''gemini'' \<Longrightarrow> p \<noteq> JStr ''anthropic'' \<Longrightarrow>
   extractAssistantMessage p (JObj [(''choices'', JArr [JObj [(''message'', JObj [(''content'', t)])]])])
     = Inr t"
  by (cases t; simp add: extractAssistantMessage_def getProp_def optProp_def nullish_def)+

lemma extractAssistantMessage_null:
  "extractAssistantMessage provider JNull =
     Inl (JsError (''Cannot read properties of null (reading '' @ [CHR 0x27]
        @ (if provider = JStr ''gemini'' then ''candidates''
           else if provider = JStr ''anthropic'' then ''content'' else ''choices'')
        @ [CHR 0x27] @ '')''))"
  by (simp add: extractAssistantMessage_def getProp_def)

lemma chat_handler_no_text:
  assumes "admitted env st req" and "safeParse (body req) = Inr data"
    and "getChat (storage st) (data_chatId data) = Some chat"
    and "data_messages data \<noteq> []"
    and "buildRequest (provider_of req) (providerEndpoint_of req) (providerApiKey_of env req)
           (requestedModel data) (data_messages data) = Inr request"
    and "fetch env request = Inr apiResponse"
    and "ok apiResponse"
    and "body_json apiResponse = Inr responseData"
    and "extractAssistantMessage (provider_of req) responseData = Inr a"
    and "\<not> truthy a"
  shows "chat_handler env st req =
     (\<lparr>statusCode = 500, json = ErrorJson ''No response from AI model'' None\<rparr>,
      (afterGate env st req)\<lparr>storage := (storage st)\<lparr>messages :=
            (if msg_role (last (data_messages data)) = User
             then jsmap_set (messages (storage st)) (userMessageUuid env) (userMessage_of env data)
             else messages (storage st))\<rparr>\<rparr>,
      [request])"
  unfolding chat_handler_def chat_try_provider_stage [OF assms(1-4)]
    callProvider_no_text [OF assms(5-10)]
  by simp

text \<open>
  Claim C4 at a vendor reply with status 200 and the JSON body \<^verbatim>\<open>null\<close>. The expected
  field \<^verbatim>\<open>choices[0].message.content\<close> is absent, but the first access of the chain,
  \<^verbatim>\<open>responseData.choices\<close>, is not an optional one: it throws, and the catch block answers
  500 with \<^verbatim>\<open>Failed to process chat request\<close>, not with \<^verbatim>\<open>No response from AI model\<close>.
  No assistant message is stored. For a reply that is not null the lemmas above give
  what the claim says: the chain read for each provider, and the answer 500 with
  \<^verbatim>\<open>No response from AI model\<close>, no assistant message stored, when the text is missing.
\<close>

theorem null_reply_body_evaluation:
  "chat_handler (fixture_env (fixture_reply JNull)) fixture_state
      (fixture_req (fixture_body [fixture_turn ''user'' ''hi''] [])) =
     (\<lparr>statusCode = 500,
       json = ErrorJson ''Failed to process chat request''
                (Some (Text ''Cannot read properties of null (reading 'choices')''))\<rparr>,
      \<lparr>rateLimitMap = [''10.0.0.1'' \<mapsto> \<lparr>count = 1, resetTime = 61000\<rparr>], globalRateLimit = 3,
       storage = \<lparr>chats = [fixture_chat],
                  messages = [(''m1'', \<lparr>chatId = ''c1'', role = User, content = JStr ''hi'',
                                        model = None, id' = ''m1'', timestamp = 1001\<rparr>)]\<rparr>\<rparr>,
      [\<lparr>apiUrl = ''https://models.inference.ai.azure.com/chat/completions'',
        headers = [(''Content-Type'', ''application/json''), (''Authorization'', ''Bearer ghp'')],
        requestBody = ChatCompletions ''gpt-5'' [ChatMessage User ''hi''] (Some 4000) None\<rparr>])"
proof -
  let ?env = "fixture_env (fixture_reply JNull)"
  let ?req = "fixture_req (fixture_body [fixture_turn ''user'' ''hi''] [])"
  let ?data = "\<lparr>data_chatId = ''c1'', data_messages = [ChatMessage User ''hi''], data_model = None\<rparr>"
  let ?request = "\<lparr>apiUrl = ''https://models.inference.ai.azure.com/chat/completions'',
        headers = [(''Content-Type'', ''application/json''), (''Authorization'', ''Bearer ghp'')],
        requestBody = ChatCompletions (requestedModel ?data) (data_messages ?data) (Some 4000) None\<rparr>"
  let ?reply = "\<lparr>status = 200, body_text = Inr ''(body)'', body_json = Inr JNull\<rparr>"
  have c: "getChat (storage fixture_state) (data_chatId ?data) = Some (snd fixture_chat)"
    by (simp add: fixture_getChat)
  have n: "data_messages ?data \<noteq> []" by simp
  have f: "fetch ?env ?request = Inr ?reply" by (simp add: fixture_env_def fixture_reply_def)
  have k: "ok ?reply" by (simp add: ok_def)
  have j: "body_json ?reply = Inr JNull" by simp
  have x: "extractAssistantMessage (provider_of ?req) JNull =
      Inl (JsError ''Cannot read properties of null (reading 'choices')'')"
    by (simp add: extractAssistantMessage_null provider_of_def js_or_def fixture_defs)
  show ?thesis
    unfolding chat_handler_def chat_try_provider_stage [OF fixture_admitted fixture_parse_one c n]
      callProvider_throws_on_extract [OF fixture_default_request f k j x] fixture_afterGate
    by (simp add: chat_catch_choices_error userMessage_of_def requestedModel_def
        fixture_state_def fixture_env_def)
qed

section \<open>A failed provider call\<close>

text \<open>
  Claim C5, as stated, fails on the code: \<^verbatim>\<open>await apiResponse.text()\<close> is inside the
  \<^verbatim>\<open>try\<close> block. When the vendor answers 503 and reading its body rejects, the catch
  block answers 500 with \<^verbatim>\<open>Failed to process chat request\<close>, not the vendor's status.
\<close>

theorem unreadable_error_body_counterexample:
  "\<not> ok \<lparr>status = 503, body_text = Inl (JsError ''terminated''),
           body_json = Inl (JsError ''terminated'')\<rparr>
   \<and> fst (chat_handler
        (fixture_env (Inr \<lparr>status = 503, body_text = Inl (JsError ''terminated''),
                            body_json = Inl (JsError ''terminated'')\<rparr>))
        fixture_state (fixture_req (fixture_body [fixture_turn ''user'' ''hi''] []))) =
       \<lparr>statusCode = 500,
        json = ErrorJson ''Failed to process chat request'' (Some (Text ''terminated''))\<rparr>"
proof -
  let ?reply = "\<lparr>status = 503, body_text = Inl (JsError ''terminated''),
                  body_json = Inl (JsError ''terminated'')\<rparr>"
  let ?env = "fixture_env (Inr ?reply)"
  let ?req = "fixture_req (fixture_body [fixture_turn ''user'' ''hi''] [])"
  let ?data = "\<lparr>data_chatId = ''c1'', data_messages = [ChatMessage User ''hi''], data_model = None\<rparr>"
  let ?request = "\<lparr>apiUrl = ''https://models.inference.ai.azure.com/chat/completions'',
        headers = [(''Content-Type'', ''application/json''), (''Authorization'', ''Bearer ghp'')],
        requestBody = ChatCompletions (requestedModel ?data) (data_messages ?data) (Some 4000) None\<rparr>"
  have c: "getChat (storage fixture_state) (data_chatId ?data) = Some (snd fixture_chat)"
    by (simp add: fixture_getChat)
  have n: "data_messages ?data \<noteq> []" by simp
  have f: "fetch ?env ?request = Inr ?reply" by (simp add: fixture_env_def)
  have k: "\<not> ok ?reply" by (simp add: ok_def)
  have t: "body_text ?reply = Inl (JsError ''terminated'')" by simp
  have "fst (chat_handler ?env fixture_state ?req) =
       \<lparr>statusCode = 500,
        json = ErrorJson ''Failed to process chat request'' (Some (Text ''terminated''))\<rparr>"
    unfolding chat_handler_def chat_try_provider_stage [OF fixture_admitted fixture_parse_one c n]
      callProvider_text_rejects [OF fixture_default_request f k t]
    by (simp add: chat_catch_terminated)
  with k show ?thesis by blast
qed

text \<open>
  Claim C5, amended. Whenever the outbound call returns a status outside 200 to 299 and
  its body can be read, the handler answers with that same status and the body's text as
  details. The user's message, stored before the call when the last turn has role user,
  is still stored: looking its id up in the message map gives it, and
  \<^verbatim>\<open>getMessagesByChatId\<close> of the chat lists it. Every other id reads as before the
  request (and when the last turn has role assistant the map is the one before the
  request), so no assistant message has been created; the chats are unchanged.
\<close>

theorem provider_failure_partial_state:
  assumes "admitted env st req" and "safeParse (body req) = Inr data"
    and "getChat (storage st) (data_chatId data) = Some chat"
    and "data_messages data \<noteq> []"
    and "buildRequest (provider_of req) (providerEndpoint_of req) (providerApiKey_of env req)
           (requestedModel data) (data_messages data) = Inr request"
    and "fetch env request = Inr apiResponse"
    and "\<not> ok apiResponse"
    and "body_text apiResponse = Inr errorText"
  shows "chat_handler env st req =
       (\<lparr>statusCode = status apiResponse,
         json = ErrorJson ''Failed to get response from AI model'' (Some (Text errorText))\<rparr>,
        (afterGate env st req)\<lparr>storage := (storage st)\<lparr>messages :=
              (if msg_role (last (data_messages data)) = User
               then jsmap_set (messages (storage st)) (userMessageUuid env) (userMessage_of env data)
               else messages (storage st))\<rparr>\<rparr>,
        [request])
     \<and> jsmap_get (messages (storage (fst (snd (chat_handler env st req))))) =
         (if msg_role (last (data_messages data)) = User
          then (jsmap_get (messages (storage st)))(userMessageUuid env \<mapsto> userMessage_of env data)
          else jsmap_get (messages (storage st)))
     \<and> (if msg_role (last (data_messages data)) = User
         then userMessage_of env data
              \<in> set (getMessagesByChatId (storage (fst (snd (chat_handler env st req))))
                       (data_chatId data))
         else messages (storage (fst (snd (chat_handler env st req)))) = messages (storage st))
     \<and> chats (storage (fst (snd (chat_handler env st req)))) = chats (storage st)"
proof -
  let ?sto = "(storage st)\<lparr>messages :=
              (if msg_role (last (data_messages data)) = User
               then jsmap_set (messages (storage st)) (userMessageUuid env) (userMessage_of env data)
               else messages (storage st))\<rparr>"
  have run: "chat_handler env st req =
       (\<lparr>statusCode = status apiResponse,
         json = ErrorJson ''Failed to get response from AI model'' (Some (Text errorText))\<rparr>,
        (afterGate env st req)\<lparr>storage := ?sto\<rparr>, [request])"
    unfolding chat_handler_def chat_try_provider_stage [OF assms(1-4)]
      callProvider_not_ok [OF assms(5-8)]
    by simp
  have sto: "storage (fst (snd (chat_handler env st req))) = ?sto"
    unfolding run by simp
  have lookup: "jsmap_get (messages ?sto) =
         (if msg_role (last (data_messages data)) = User
          then (jsmap_get (messages (storage st)))(userMessageUuid env \<mapsto> userMessage_of env data)
          else jsmap_get (messages (storage st)))"
    by (simp add: jsmap_get_jsmap_set)
  have listed: "msg_role (last (data_messages data)) = User \<Longrightarrow>
      userMessage_of env data \<in> set (getMessagesByChatId ?sto (data_chatId data))"
    by (rule getMessagesByChatId_member [of "userMessageUuid env"])
       (simp_all add: jsmap_set_member userMessage_of_def)
  show ?thesis
    unfolding sto using run lookup listed by simp
qed

theorem provider_failure_partial_state_witness:
  "chat_handler
     (fixture_env (Inr \<lparr>status = 503, body_text = Inr ''upstream down'',
                         body_json = Inl (JsError ''Unexpected token u'')\<rparr>))
     (fixture_state\<lparr>storage := \<lparr>chats = [fixture_chat],
                                  messages = [fixture_message ''m0'' ''c1'' 900]\<rparr>\<rparr>)
     (fixture_req (fixture_body [fixture_turn ''user'' ''hi''] [])) =
     (\<lparr>statusCode = 503,
       json = ErrorJson ''Failed to get response from AI model'' (Some (Text ''upstream down''))\<rparr>,
      \<lparr>rateLimitMap = [''10.0.0.1'' \<mapsto> \<lparr>count = 1, resetTime = 61000\<rparr>], globalRateLimit = 3,
       storage = \<lparr>chats = [fixture_chat],
                  messages = [fixture_message ''m0'' ''c1'' 900,
                              (''m1'', \<lparr>chatId = ''c1'', role = User, content = JStr ''hi'',
                                        model = None, id' = ''m1'', timestamp = 1001\<rparr>)]\<rparr>\<rparr>,
      [\<lparr>apiUrl = ''https://models.inference.ai.azure.com/chat/completions'',
        headers = [(''Content-Type'', ''application/json''), (''Authorization'', ''Bearer ghp'')],
        requestBody = ChatCompletions ''gpt-5'' [ChatMessage User ''hi''] (Some 4000) None\<rparr>])
   \<and> jsmap_get (messages (storage (fst (snd (chat_handler
        (fixture_env (Inr \<lparr>status = 503, body_text = Inr ''upstream down'',
                            body_json = Inl (JsError ''Unexpected token u'')\<rparr>))
        (fixture_state\<lparr>storage := \<lparr>chats = [fixture_chat],
                                     messages = [fixture_message ''m0'' ''c1'' 900]\<rparr>\<rparr>)
        (fixture_req (fixture_body [fixture_turn ''user'' ''hi''] []))))))) ''m1'' =
       Some \<lparr>chatId = ''c1'', role = User, content = JStr ''hi'',
             model = None, id' = ''m1'', timestamp = 1001\<rparr>"
proof -
  let ?reply = "\<lparr>status = 503, body_text = Inr ''upstream down'',
                  body_json = Inl (JsError ''Unexpected token u'')\<rparr>"
  let ?env = "fixture_env (Inr ?reply)"
  let ?st = "fixture_state\<lparr>storage := \<lparr>chats = [fixture_chat],
                                  messages = [fixture_message ''m0'' ''c1'' 900]\<rparr>\<rparr>"
  let ?req = "fixture_req (fixture_body [fixture_turn ''user'' ''hi''] [])"
  let ?data = "\<lparr>data_chatId = ''c1'', data_messages = [ChatMessage User ''hi''], data_model = None\<rparr>"
  let ?request = "\<lparr>apiUrl = ''https://models.inference.ai.azure.com/chat/completions'',
        headers = [(''Content-Type'', ''application/json''), (''Authorization'', ''Bearer ghp'')],
        requestBody = ChatCompletions (requestedModel ?data) (data_messages ?data) (Some 4000) None\<rparr>"
  have a: "admitted ?env ?st ?req"
    by (simp add: admitted_def checkRateLimit_def clientIp_def fixture_defs)
  have g: "afterGate ?env ?st ?req =
      ?st\<lparr>rateLimitMap := [''10.0.0.1'' \<mapsto> \<lparr>count = 1, resetTime = 61000\<rparr>]\<rparr>"
    by (simp add: afterGate_def checkRateLimit_def clientIp_def fixture_defs)
  have c: "getChat (storage ?st) (data_chatId ?data) = Some (snd fixture_chat)"
    by (simp add: getChat_def jsmap_get_def fixture_defs)
  have n: "data_messages ?data \<noteq> []" by simp
  have f: "fetch ?env ?request = Inr ?reply" by (simp add: fixture_env_def)
  have k: "\<not> ok ?reply" by (simp add: ok_def)
  have t: "body_text ?reply = Inr ''upstream down''" by simp
  note inst = provider_failure_partial_state
      [OF a fixture_parse_one c n fixture_default_request f k t]
  have run: "chat_handler ?env ?st ?req =
     (\<lparr>statusCode = 503,
       json = ErrorJson ''Failed to get response from AI model'' (Some (Text ''upstream down''))\<rparr>,
      \<lparr>rateLimitMap = [''10.0.0.1'' \<mapsto> \<lparr>count = 1, resetTime = 61000\<rparr>], globalRateLimit = 3,
       storage = \<lparr>chats = [fixture_chat],
                  messages = [fixture_message ''m0'' ''c1'' 900,
                              (''m1'', \<lparr>chatId = ''c1'', role = User, content = JStr ''hi'',
                                        model = None, id' = ''m1'', timestamp = 1001\<rparr>)]\<rparr>\<rparr>,
      [\<lparr>apiUrl = ''https://models.inference.ai.azure.com/chat/completions'',
        headers = [(''Content-Type'', ''application/json''), (''Authorization'', ''Bearer ghp'')],
        requestBody = ChatCompletions ''gpt-5'' [ChatMessage User ''hi''] (Some 4000) None\<rparr>])"
    using inst unfolding g
    by (simp add: userMessage_of_def requestedModel_def fixture_state_def fixture_env_def
        fixture_message_def)
  have lookup: "jsmap_get (messages (storage (fst (snd (chat_handler ?env ?st ?req))))) =
         (if msg_role (last (data_messages ?data)) = User
          then (jsmap_get (messages (storage ?st)))(userMessageUuid ?env \<mapsto> userMessage_of ?env ?data)
          else jsmap_get (messages (storage ?st)))"
    using inst by blast
  have "jsmap_get (messages (storage (fst (snd (chat_handler ?env ?st ?req))))) ''m1'' =
       Some \<lparr>chatId = ''c1'', role = User, content = JStr ''hi'',
             model = None, id' = ''m1'', timestamp = 1001\<rparr>"
    unfolding lookup by (simp add: userMessage_of_def fixture_env_def)
  with run show ?thesis by blast
qed

section \<open>A successful turn\<close>

text \<open>
  Claim C6, as stated, fails on the code: the user message is stored only
  \<^verbatim>\<open>if (userMessage.role === "user")\<close>. The schema allows a list that ends with an
  assistant turn; the call then succeeds with one new message, the assistant's.
\<close>

theorem assistant_last_counterexample:
  "statusCode (fst (chat_handler (fixture_env (fixture_reply fixture_completion)) fixture_state
      (fixture_req (fixture_body
         [fixture_turn ''user'' ''hi'', fixture_turn ''assistant'' ''hello''] [])))) = 200
   \<and> messages (storage fixture_state) = []
   \<and> messages (storage (fst (snd (chat_handler (fixture_env (fixture_reply fixture_completion))
        fixture_state
        (fixture_req (fixture_body
           [fixture_turn ''user'' ''hi'', fixture_turn ''assistant'' ''hello''] [])))))) =
       [(''m2'', \<lparr>chatId = ''c1'', role = Assistant, content = JStr ''yo'',
                  model = Some ''gpt-5'', id' = ''m2'', timestamp = 1002\<rparr>)]"
proof -
  have "messages (storage fixture_state) = []" by (simp add: fixture_state_def)
  then show ?thesis
    using fixture_run_ok [OF fixture_parse_two _ _ fixture_completion_text]
    by (simp add: requestedModel_def)
qed

text \<open>
  Claim C6, amended. Every call answered with status 200, whose model id is not empty and
  whose two uuids are fresh, appends to the message map: first, when the last supplied
  turn has role user, a message with role user, that turn's content and model null; then
  a message with role assistant, the extracted (truthy) text as content and the requested
  model id (the default \<^verbatim>\<open>gpt-5\<close> when the request names none) as model. When the last
  turn has role assistant, the assistant message is the only new one. The reply carries
  the text, the assistant message's id and the model; the chats are unchanged.
\<close>

theorem successful_turn_persistence:
  assumes ok200: "statusCode (fst (chat_handler env st req)) = 200"
    and valid: "safeParse (body req) = Inr data"
    and model_nonempty: "requestedModel data \<noteq> []"
    and fresh_user: "userMessageUuid env \<notin> fst ` set (messages (storage st))"
    and fresh_assistant: "assistantMessageUuid env \<notin> fst ` set (messages (storage st))"
    and distinct_ids: "userMessageUuid env \<noteq> assistantMessageUuid env"
  shows "\<exists>a. truthy a
     \<and> fst (chat_handler env st req) =
         \<lparr>statusCode = 200, json = ChatJson a (assistantMessageUuid env) (requestedModel data)\<rparr>
     \<and> messages (storage (fst (snd (chat_handler env st req)))) =
         messages (storage st)
         @ (if msg_role (last (data_messages data)) = User
            then [(userMessageUuid env, userMessage_of env data)] else [])
         @ [(assistantMessageUuid env, assistantMessage_of env data a)]
     \<and> chats (storage (fst (snd (chat_handler env st req)))) = chats (storage st)"
proof -
  have adm: "admitted env st req"
  proof (rule ccontr)
    assume "\<not> admitted env st req"
    then show False using ok200 by (simp add: chat_handler_rejected)
  qed
  obtain chat where chat: "getChat (storage st) (data_chatId data) = Some chat"
    using ok200 adm valid
    by (cases "getChat (storage st) (data_chatId data)")
       (auto simp: chat_handler_reply chat_try_valid)
  have nonempty: "data_messages data \<noteq> []"
  proof
    assume "data_messages data = []"
    then have "chat_try env st req =
        (Inl (JsError ''Cannot read properties of undefined (reading 'role')''), afterGate env st req, [])"
      using adm valid chat by (simp add: chat_try_valid storeUserMessage_def)
    then show False using ok200 by (simp add: chat_handler_reply chat_catch_not_200)
  qed
  let ?sto = "(storage st)\<lparr>messages :=
            (if msg_role (last (data_messages data)) = User
             then jsmap_set (messages (storage st)) (userMessageUuid env) (userMessage_of env data)
             else messages (storage st))\<rparr>"
  let ?st1 = "(afterGate env st req)\<lparr>storage := ?sto\<rparr>"
  let ?call = "callProvider env ?st1 req (data_chatId data) (data_messages data) (requestedModel data)"
  have stage: "chat_try env st req = ?call"
    by (rule chat_try_provider_stage [OF adm valid chat nonempty])
  obtain res where res: "fst ?call = Inr res" "statusCode res = 200"
    using ok200 unfolding chat_handler_reply stage
    by (cases "fst ?call") (auto simp: chat_catch_not_200)
  from callProvider_200 [OF res] obtain a where a: "truthy a"
    "res = \<lparr>statusCode = 200, json = ChatJson a (assistantMessageUuid env) (requestedModel data)\<rparr>"
    "fst (snd ?call) = ?st1\<lparr>storage := snd (createMessage (storage ?st1) (assistantMessageUuid env)
               (assistantMessageDate env)
               \<lparr>chatId = data_chatId data, role = Assistant, content = a,
                model = Some (requestedModel data)\<rparr>)\<rparr>"
    by blast
  have reply: "fst (chat_handler env st req) = res"
    unfolding chat_handler_reply stage using res(1) by simp
  have fresh2: "assistantMessageUuid env \<notin> fst ` set (messages ?sto)"
    using fresh_user fresh_assistant distinct_ids by (auto simp: jsmap_set_fresh)
  have msgs: "messages (storage (fst (snd (chat_handler env st req)))) =
         messages (storage st)
         @ (if msg_role (last (data_messages data)) = User
            then [(userMessageUuid env, userMessage_of env data)] else [])
         @ [(assistantMessageUuid env, assistantMessage_of env data a)]"
    unfolding chat_handler_state stage a(3)
    using fresh_user fresh2 model_nonempty
    by (simp add: createMessage_def Let_def jsmap_set_fresh assistantMessage_of_def)
  have "chats (storage (fst (snd (chat_handler env st req)))) = chats (storage st)"
    unfolding chat_handler_state stage a(3) by (simp add: createMessage_def Let_def)
  with a(1,2) reply msgs show ?thesis by blast
qed

theorem successful_turn_persistence_witness:
  "statusCode (fst (chat_handler (fixture_env (fixture_reply fixture_completion)) fixture_state
      (fixture_req (fixture_body [fixture_turn ''user'' ''hi''] [])))) = 200
   \<and> messages (storage (fst (snd (chat_handler (fixture_env (fixture_reply fixture_completion))
        fixture_state (fixture_req (fixture_body [fixture_turn ''user'' ''hi''] [])))))) =
       [(''m1'', \<lparr>chatId = ''c1'', role = User, content = JStr ''hi'',
                  model = None, id' = ''m1'', timestamp = 1001\<rparr>),
        (''m2'', \<lparr>chatId = ''c1'', role = Assistant, content = JStr ''yo'',
                  model = Some ''gpt-5'', id' = ''m2'', timestamp = 1002\<rparr>)]"
proof -
  let ?env = "fixture_env (fixture_reply fixture_completion)"
  let ?req = "fixture_req (fixture_body [fixture_turn ''user'' ''hi''] [])"
  let ?data = "\<lparr>data_chatId = ''c1'', data_messages = [ChatMessage User ''hi''], data_model = None\<rparr>"
  have run: "fst (chat_handler ?env fixture_state ?req) =
      \<lparr>statusCode = 200, json = ChatJson (JStr ''yo'') ''m2'' (requestedModel ?data)\<rparr>"
    using fixture_run_ok [OF fixture_parse_one _ _ fixture_completion_text] by simp
  then have ok200: "statusCode (fst (chat_handler ?env fixture_state ?req)) = 200" by simp
  have mn: "requestedModel ?data \<noteq> []" by (simp add: requestedModel_def)
  have f1: "userMessageUuid ?env \<notin> fst ` set (messages (storage fixture_state))"
    and f2: "assistantMessageUuid ?env \<notin> fst ` set (messages (storage fixture_state))"
    and d: "userMessageUuid ?env \<noteq> assistantMessageUuid ?env"
    by (simp_all add: fixture_state_def fixture_env_def)
  from successful_turn_persistence [OF ok200 fixture_parse_one mn f1 f2 d]
  obtain a where a: "fst (chat_handler ?env fixture_state ?req) =
         \<lparr>statusCode = 200, json = ChatJson a (assistantMessageUuid ?env) (requestedModel ?data)\<rparr>"
    and m: "messages (storage (fst (snd (chat_handler ?env fixture_state ?req)))) =
         messages (storage fixture_state)
         @ (if msg_role (last (data_messages ?data)) = User
            then [(userMessageUuid ?env, userMessage_of ?env ?data)] else [])
         @ [(assistantMessageUuid ?env, assistantMessage_of ?env ?data a)]"
    by blast
  from a run have "a = JStr ''yo''" by simp
  with m ok200 show ?thesis
    by (simp add: userMessage_of_def assistantMessage_of_def requestedModel_def fixture_state_def
        fixture_env_def)
qed

section \<open>The rate-limit gate and validation\<close>

text \<open>
  Claim C7. For every request whose client key \<^verbatim>\<open>checkRateLimit\<close> rejects, the handler
  answers 429 at once: the state is the one before the request (no message is stored,
  the limiter's map is as it was) and no outbound call is made.
\<close>

theorem rate_limited_rejection:
  assumes "\<not> admitted env st req"
  shows "chat_handler env st req =
     (\<lparr>statusCode = 429,
       json = ErrorJson ''Rate limit exceeded. Please wait before sending another message.'' None\<rparr>,
      st, [])"
  using assms by (rule chat_handler_rejected)

theorem rate_limited_rejection_witness:
  "\<not> admitted (fixture_env (Inl (JsError ''fetch failed'')))
        (fixture_state\<lparr>rateLimitMap := [''10.0.0.1'' \<mapsto> \<lparr>count = 3, resetTime = 61000\<rparr>]\<rparr>)
        (fixture_req (fixture_body [fixture_turn ''user'' ''hi''] []))
   \<and> chat_handler (fixture_env (Inl (JsError ''fetch failed'')))
        (fixture_state\<lparr>rateLimitMap := [''10.0.0.1'' \<mapsto> \<lparr>count = 3, resetTime = 61000\<rparr>]\<rparr>)
        (fixture_req (fixture_body [fixture_turn ''user'' ''hi''] [])) =
       (\<lparr>statusCode = 429,
         json = ErrorJson ''Rate limit exceeded. Please wait before sending another message.'' None\<rparr>,
        fixture_state\<lparr>rateLimitMap := [''10.0.0.1'' \<mapsto> \<lparr>count = 3, resetTime = 61000\<rparr>]\<rparr>, [])"
proof -
  have na: "\<not> admitted (fixture_env (Inl (JsError ''fetch failed'')))
        (fixture_state\<lparr>rateLimitMap := [''10.0.0.1'' \<mapsto> \<lparr>count = 3, resetTime = 61000\<rparr>]\<rparr>)
        (fixture_req (fixture_body [fixture_turn ''user'' ''hi''] []))"
    by (simp add: admitted_def checkRateLimit_def clientIp_def fixture_defs)
  from na rate_limited_rejection [OF na] show ?thesis by blast
qed

text \<open>
  Claim C8, as stated, fails on the code: the handler calls \<^verbatim>\<open>checkRateLimit\<close> before
  it validates the body. A body with the role \<^verbatim>\<open>system\<close> fails the schema, and the
  client, unknown to the limiter before the request, has an entry with count 1 after it.
\<close>

theorem validation_after_gate_counterexample:
  "safeParse (body (fixture_req (fixture_body [fixture_turn ''system'' ''hi''] []))) =
     Inl [[Key ''messages'', Index 0, Key ''role'']]
   \<and> rateLimitMap fixture_state ''10.0.0.1'' = None
   \<and> rateLimitMap (fst (snd (chat_handler (fixture_env (Inl (JsError ''fetch failed''))) fixture_state
        (fixture_req (fixture_body [fixture_turn ''system'' ''hi''] []))))) ''10.0.0.1'' =
       Some \<lparr>count = 1, resetTime = 61000\<rparr>"
proof -
  have "chat_try (fixture_env (Inl (JsError ''fetch failed''))) fixture_state
        (fixture_req (fixture_body [fixture_turn ''system'' ''hi''] [])) =
     (Inr \<lparr>statusCode = 400,
           json = ErrorJson ''Invalid request format''
                    (Some (Issues [[Key ''messages'', Index 0, Key ''role'']]))\<rparr>,
      fixture_state\<lparr>rateLimitMap := [''10.0.0.1'' \<mapsto> \<lparr>count = 1, resetTime = 61000\<rparr>]\<rparr>, [])"
    using chat_try_invalid [OF fixture_admitted fixture_parse_bad_role]
    by (simp add: fixture_afterGate)
  then have "rateLimitMap (fst (snd (chat_handler (fixture_env (Inl (JsError ''fetch failed'')))
        fixture_state (fixture_req (fixture_body [fixture_turn ''system'' ''hi''] []))))) ''10.0.0.1'' =
       Some \<lparr>count = 1, resetTime = 61000\<rparr>"
    by (simp add: chat_handler_state)
  moreover have "rateLimitMap fixture_state ''10.0.0.1'' = None"
    by (simp add: fixture_state_def)
  ultimately show ?thesis using fixture_parse_bad_role by blast
qed

text \<open>
  Claim C8, amended. For every request that the limiter admits and whose body fails the
  chat request schema, the handler answers 400 with the validation issues as details; the
  storage and the global limit are unchanged and no outbound call is made. The limiter
  has run before validation: the client's entry in its map has been created, reset or
  incremented.
\<close>

theorem invalid_request_after_gate:
  assumes "admitted env st req" and "safeParse (body req) = Inl issues"
  shows "chat_handler env st req =
       (\<lparr>statusCode = 400, json = ErrorJson ''Invalid request format'' (Some (Issues issues))\<rparr>,
        afterGate env st req, [])
     \<and> storage (afterGate env st req) = storage st
     \<and> globalRateLimit (afterGate env st req) = globalRateLimit st
     \<and> rateLimitMap (afterGate env st req) (clientIp req) \<noteq> rateLimitMap st (clientIp req)"
proof -
  have "rateLimitMap (afterGate env st req) (clientIp req) \<noteq> rateLimitMap st (clientIp req)"
    using assms(1) by (simp add: admitted_def afterGate_def checkRateLimit_admitted_changes)
  then show ?thesis
    using assms by (simp add: chat_handler_def chat_try_invalid) (simp add: afterGate_def)
qed

theorem invalid_request_after_gate_witness:
  "admitted (fixture_env (Inl (JsError ''fetch failed''))) fixture_state
        (fixture_req (fixture_body [fixture_turn ''system'' ''hi''] []))
   \<and> chat_handler (fixture_env (Inl (JsError ''fetch failed''))) fixture_state
        (fixture_req (fixture_body [fixture_turn ''system'' ''hi''] [])) =
       (\<lparr>statusCode = 400,
         json = ErrorJson ''Invalid request format''
                  (Some (Issues [[Key ''messages'', Index 0, Key ''role'']]))\<rparr>,
        fixture_state\<lparr>rateLimitMap := [''10.0.0.1'' \<mapsto> \<lparr>count = 1, resetTime = 61000\<rparr>]\<rparr>, [])"
  using invalid_request_after_gate [OF fixture_admitted fixture_parse_bad_role] fixture_admitted
  by (simp add: fixture_afterGate)

section \<open>The empty message list\<close>

text \<open>
  Claim C10, as stated, fails on the code: the chat lookup comes before the read of the
  last message. A request with an empty list whose chat id is unknown is answered 404;
  the limiter has counted it all the same.
\<close>

theorem empty_messages_unknown_chat_counterexample:
  "safeParse (body (fixture_req (JObj [(''chatId'', JStr ''c2''), (''messages'', JArr [])]))) =
     Inr \<lparr>data_chatId = ''c2'', data_messages = [], data_model = None\<rparr>
   \<and> chat_handler (fixture_env (Inl (JsError ''fetch failed''))) fixture_state
        (fixture_req (JObj [(''chatId'', JStr ''c2''), (''messages'', JArr [])])) =
       (\<lparr>statusCode = 404, json = ErrorJson ''Chat not found'' None\<rparr>,
        fixture_state\<lparr>rateLimitMap := [''10.0.0.1'' \<mapsto> \<lparr>count = 1, resetTime = 61000\<rparr>]\<rparr>, [])"
proof -
  let ?req = "fixture_req (JObj [(''chatId'', JStr ''c2''), (''messages'', JArr [])])"
  let ?data = "\<lparr>data_chatId = ''c2'', data_messages = [], data_model = None\<rparr>"
  have p: "safeParse (body ?req) = Inr ?data"
    by (simp add: parse_defs fixture_req_def)
  have c: "getChat (storage fixture_state) (data_chatId ?data) = None"
    by (simp add: getChat_def jsmap_get_def fixture_defs)
  have "chat_handler (fixture_env (Inl (JsError ''fetch failed''))) fixture_state ?req =
       (\<lparr>statusCode = 404, json = ErrorJson ''Chat not found'' None\<rparr>,
        fixture_state\<lparr>rateLimitMap := [''10.0.0.1'' \<mapsto> \<lparr>count = 1, resetTime = 61000\<rparr>]\<rparr>, [])"
    unfolding chat_handler_def chat_try_unknown_chat [OF fixture_admitted p c] fixture_afterGate
    by simp
  with p show ?thesis by blast
qed

text \<open>
  Claim C10, amended. The schema accepts a body whose \<^verbatim>\<open>messages\<close> array is empty. For
  a request with such a body that the limiter admits and whose chat exists, reading
  \<^verbatim>\<open>role\<close> of the missing last message throws; the catch block answers 500 with
  \<^verbatim>\<open>Failed to process chat request\<close> and the TypeError's message as details, not 400.
  The limiter has counted the request (the client's entry has changed), no message is
  stored, and no outbound call is made.
\<close>

theorem empty_messages_crash:
  assumes "admitted env st req" and "safeParse (body req) = Inr data"
    and "data_messages data = []"
    and "getChat (storage st) (data_chatId data) = Some chat"
  shows "safeParse (JObj [(''chatId'', JStr c), (''messages'', JArr [])]) =
         Inr \<lparr>data_chatId = c, data_messages = [], data_model = None\<rparr>
     \<and> chat_handler env st req =
       (\<lparr>statusCode = 500,
         json = ErrorJson ''Failed to process chat request''
                  (Some (Text ''Cannot read properties of undefined (reading 'role')''))\<rparr>,
        afterGate env st req, [])
     \<and> storage (afterGate env st req) = storage st
     \<and> rateLimitMap (afterGate env st req) (clientIp req) \<noteq> rateLimitMap st (clientIp req)"
proof -
  have accepted: "safeParse (JObj [(''chatId'', JStr c), (''messages'', JArr [])]) =
         Inr \<lparr>data_chatId = c, data_messages = [], data_model = None\<rparr>"
    by (simp add: safeParse_def parse_string_def parse_messages_field_def parse_model_field_def)
  have changed: "rateLimitMap (afterGate env st req) (clientIp req) \<noteq> rateLimitMap st (clientIp req)"
    using assms(1) by (simp add: admitted_def afterGate_def checkRateLimit_admitted_changes)
  have "chat_try env st req =
      (Inl (JsError ''Cannot read properties of undefined (reading 'role')''), afterGate env st req, [])"
    using assms by (simp add: chat_try_valid storeUserMessage_def)
  then have "chat_handler env st req =
       (\<lparr>statusCode = 500,
         json = ErrorJson ''Failed to process chat request''
                  (Some (Text ''Cannot read properties of undefined (reading 'role')''))\<rparr>,
        afterGate env st req, [])"
    by (simp add: chat_handler_def chat_catch_role_error)
  with accepted changed show ?thesis by (simp add: afterGate_def)
qed

theorem empty_messages_crash_witness:
  "admitted (fixture_env (Inl (JsError ''fetch failed''))) fixture_state
        (fixture_req (fixture_body [] []))
   \<and> safeParse (body (fixture_req (fixture_body [] []))) =
       Inr \<lparr>data_chatId = ''c1'', data_messages = [], data_model = None\<rparr>
   \<and> chat_handler (fixture_env (Inl (JsError ''fetch failed''))) fixture_state
        (fixture_req (fixture_body [] [])) =
       (\<lparr>statusCode = 500,
         json = ErrorJson ''Failed to process chat request''
                  (Some (Text ''Cannot read properties of undefined (reading 'role')''))\<rparr>,
        fixture_state\<lparr>rateLimitMap := [''10.0.0.1'' \<mapsto> \<lparr>count = 1, resetTime = 61000\<rparr>]\<rparr>, [])"
proof -
  have c: "getChat (storage fixture_state)
      (data_chatId \<lparr>data_chatId = ''c1'', data_messages = [], data_model = None\<rparr>) =
      Some (snd fixture_chat)"
    by (simp add: fixture_getChat)
  have e: "data_messages \<lparr>data_chatId = ''c1'', data_messages = [], data_model = None\<rparr> = []"
    by simp
  show ?thesis
    using empty_messages_crash [OF fixture_admitted fixture_parse_empty e c]
      fixture_admitted fixture_parse_empty
    by (simp add: fixture_afterGate)
qed

end
